theory Spec2Isabelle
  imports Main "HOL-Library.Word"
begin

section \<open>BaiduCloudClient: a shallow embedding of sdk\_utils/baidu\_cloud.py\<close>

text \<open>
  The module is a client for a REST API. Everything it does beyond computing values is
  made explicit here: the attributes of the client object are a record that every method
  returns updated, the network, the clock and the local file system are a second record
  (the world), and every Python exception is an \<open>Inl\<close> result.
\<close>

subsection \<open>Values\<close>

type_synonym bytes = "8 word list"

text \<open>
  Python values as they come out of \<open>response.json()\<close> and as they are stored in the
  client's attributes. \<open>JNull\<close> is \<open>None\<close>. JSON numbers are integers here (floating
  point values are outside the model).
\<close>

datatype jval =
    JNull
  | JBool bool
  | JInt int
  | JStr string
  | JList "jval list"
  | JObj "(string \<times> jval) list"

text \<open>A parsed response payload: a Python dict with string keys.\<close>

type_synonym payload = "string \<rightharpoonup> jval"

text \<open>Python truthiness: \<open>not v\<close> is \<open>\<not> truthy v\<close>.\<close>

fun truthy :: "jval \<Rightarrow> bool" where
  "truthy JNull = False"
| "truthy (JBool b) = b"
| "truthy (JInt n) = (n \<noteq> 0)"
| "truthy (JStr s) = (s \<noteq> [])"
| "truthy (JList vs) = (vs \<noteq> [])"
| "truthy (JObj kvs) = (kvs \<noteq> [])"

text \<open>The Python comparison \<open>v != 0\<close>; \<open>False == 0\<close> and \<open>True == 1\<close> in Python.\<close>

fun ne_zero :: "jval \<Rightarrow> bool" where
  "ne_zero (JInt n) = (n \<noteq> 0)"
| "ne_zero (JBool b) = b"
| "ne_zero _ = True"

text \<open>The test \<open>'errno' in result and result['errno'] != 0\<close>.\<close>

definition errno_set :: "payload \<Rightarrow> bool" where
  "errno_set result = (case result ''errno'' of None \<Rightarrow> False | Some v \<Rightarrow> ne_zero v)"

text \<open>
  The messages of the source are Chinese text; a \<open>string\<close> holds their UTF-8 bytes.
\<close>

definition msg_no_access_token :: string where
  "msg_no_access_token = map char_of
     [0xE6, 0x9C, 0xAA, 0xE8, 0xAE, 0xBE, 0xE7, 0xBD, 0xAE, 0x61, 0x63, 0x63, 0x65, 0x73,
      0x73, 0x5F, 0x74, 0x6F, 0x6B, 0x65, 0x6E, 0xEF, 0xBC, 0x8C, 0xE8, 0xAF, 0xB7, 0xE5,
      0x85, 0x88, 0xE8, 0x8E, 0xB7, 0xE5, 0x8F, 0x96, 0xE6, 0x8E, 0x88, 0xE6, 0x9D, 0x83 :: nat]"

definition msg_no_refresh_token :: string where
  "msg_no_refresh_token = map char_of
     [0xE6, 0x9C, 0xAA, 0xE8, 0xAE, 0xBE, 0xE7, 0xBD, 0xAE, 0x72, 0x65, 0x66, 0x72, 0x65,
      0x73, 0x68, 0x5F, 0x74, 0x6F, 0x6B, 0x65, 0x6E, 0xEF, 0xBC, 0x8C, 0xE6, 0x97, 0xA0,
      0xE6, 0xB3, 0x95, 0xE5, 0x88, 0xB7, 0xE6, 0x96, 0xB0, 0x74, 0x6F, 0x6B, 0x65, 0x6E :: nat]"

definition msg_no_upload_id :: string where
  "msg_no_upload_id = map char_of
     [0xE8, 0x8E, 0xB7, 0xE5, 0x8F, 0x96, 0xE4, 0xB8, 0x8A, 0xE4, 0xBC, 0xA0, 0x49, 0x44,
      0xE5, 0xA4, 0xB1, 0xE8, 0xB4, 0xA5 :: nat]"

definition msg_file_missing :: string where
  "msg_file_missing = map char_of
     [0xE6, 0x96, 0x87, 0xE4, 0xBB, 0xB6, 0xE4, 0xB8, 0x8D, 0xE5, 0xAD, 0x98, 0xE5, 0x9C,
      0xA8, 0x3A, 0x20 :: nat]"

text \<open>
  The exceptions the module can raise or let through: the two it raises itself
  (\<open>ValueError\<close>, \<open>FileNotFoundError\<close>, with their message), a failed \<open>os\<close> or
  \<open>open\<close> call, an exception of the \<open>requests\<close> transport, a body that
  \<open>response.json()\<close> cannot parse, and a \<open>TypeError\<close> of an ill-typed operand.
\<close>

datatype error =
    ValueError string
  | FileNotFoundError string
  | OSError
  | RequestException
  | JSONDecodeError
  | TypeError

subsection \<open>The client object\<close>

record client =
  app_key :: string
  secret_key :: string
  access_token :: jval
  refresh_token :: jval
  auto_refresh :: bool
  token_expire_time :: int

text \<open>
  \<open>__init__\<close>: an omitted \<open>access_token\<close> or \<open>refresh_token\<close> is \<open>None\<close>. The
  lazily created \<open>requests.Session\<close> is not an attribute here: it is the world's
  network interface below.
\<close>

definition init :: "string \<Rightarrow> string \<Rightarrow> jval \<Rightarrow> jval \<Rightarrow> bool \<Rightarrow> client" where
  "init ak sk at rt ar =
     \<lparr>app_key = ak, secret_key = sk, access_token = at, refresh_token = rt,
      auto_refresh = ar, token_expire_time = 0\<rparr>"

subsection \<open>The world: network, clock, local files\<close>

datatype http_method = GET | POST

text \<open>
  A value of a query or form field: a plain Python value, or the text that
  \<open>json.dumps\<close> makes of one (kept as the value it serialises).
\<close>

datatype field = Val jval | Dumps jval

record request =
  meth :: http_method
  url :: string
  params :: "(string \<times> field) list"
  form :: "(string \<times> field) list"
  files :: "(string \<times> bytes) list"
  stream :: bool

text \<open>
  What the transport does with one request. \<open>raises\<close>: the call to \<open>session.get\<close> or
  \<open>session.post\<close> raises instead of returning. \<open>took\<close>: the seconds the call blocks.
  \<open>json_body\<close>: what \<open>response.json()\<close> returns (\<open>None\<close>: it raises; the vendor's
  payloads are JSON objects). \<open>iter_content\<close>: the pieces that
  \<open>response.iter_content(chunk_size)\<close> yields, and \<open>stream_breaks\<close>: whether it raises
  after the last of them.
\<close>

record reply =
  raises :: bool
  took :: nat
  status_code :: int
  json_body :: "payload option"
  iter_content :: "int \<Rightarrow> bytes list"
  stream_breaks :: bool

text \<open>
  \<open>sent\<close> is the list of requests issued so far, in order. The program is sequential,
  so the vendor's behaviour is the reply it gives to the first, second, ... request:
  \<open>server k\<close> answers the request number \<open>k\<close> (counted from 0). \<open>clock\<close> is the
  value of \<open>int(time.time())\<close>. \<open>disk\<close> holds the regular files of the local file
  system, and \<open>writable p\<close> says that \<open>os.makedirs\<close> of the parent of \<open>p\<close> and
  \<open>open(p, 'wb')\<close> succeed.
\<close>

record world =
  sent :: "request list"
  server :: "nat \<Rightarrow> reply"
  clock :: int
  disk :: "string \<rightharpoonup> bytes"
  writable :: "string \<Rightarrow> bool"

type_synonym 'a outcome = "(error + 'a) \<times> client \<times> world"

text \<open>One call of the session: the request is recorded, the call blocks, and returns or raises.\<close>

definition send :: "request \<Rightarrow> world \<Rightarrow> (error + reply) \<times> world" where
  "send req w =
     (let r = server w (length (sent w));
          w' = w\<lparr>sent := sent w @ [req], clock := clock w + int (took r)\<rparr>
      in (if raises r then Inl RequestException else Inr r, w'))"

definition session_get :: "string \<Rightarrow> (string \<times> field) list \<Rightarrow> bool \<Rightarrow> world \<Rightarrow> (error + reply) \<times> world" where
  "session_get u ps st w =
     send \<lparr>meth = GET, url = u, params = ps, form = [], files = [], stream = st\<rparr> w"

definition session_post ::
  "string \<Rightarrow> (string \<times> field) list \<Rightarrow> (string \<times> field) list \<Rightarrow> (string \<times> bytes) list \<Rightarrow> world
     \<Rightarrow> (error + reply) \<times> world" where
  "session_post u ps d fl w =
     send \<lparr>meth = POST, url = u, params = ps, form = d, files = fl, stream = False\<rparr> w"

text \<open>\<open>response.json()\<close>.\<close>

definition response_json :: "reply \<Rightarrow> error + payload" where
  "response_json r = (case json_body r of None \<Rightarrow> Inl JSONDecodeError | Some j \<Rightarrow> Inr j)"

text \<open>The common last two lines of a method: perform the call, \<open>return response.json()\<close>.\<close>

definition return_json :: "client \<Rightarrow> (error + reply) \<times> world \<Rightarrow> payload outcome" where
  "return_json c rw =
     (case rw of
        (Inl e, w) \<Rightarrow> (Inl e, c, w)
      | (Inr response, w) \<Rightarrow> (response_json response, c, w))"

text \<open>Sequencing: an exception of the first step ends the method with the state as it is.\<close>

definition and_then :: "'a outcome \<Rightarrow> ('a \<Rightarrow> client \<Rightarrow> world \<Rightarrow> 'b outcome) \<Rightarrow> 'b outcome" where
  "and_then m f =
     (case m of
        (Inl e, c, w) \<Rightarrow> (Inl e, c, w)
      | (Inr x, c, w) \<Rightarrow> f x c w)"

subsection \<open>Authorisation URL\<close>

text \<open>\<open>"&".join(parts)\<close>.\<close>

fun join :: "string \<Rightarrow> string list \<Rightarrow> string" where
  "join sep [] = []"
| "join sep [x] = x"
| "join sep (x # y # ys) = x @ sep @ join sep (y # ys)"

text \<open>\<open>get_auth_url\<close>; \<open>scope = None\<close> is a call that leaves the argument out.\<close>

definition get_auth_url :: "client \<Rightarrow> string \<Rightarrow> string option \<Rightarrow> string" where
  "get_auth_url c redirect_uri scope =
     (let params =
            [(''client_id'', app_key c),
             (''response_type'', ''code''),
             (''redirect_uri'', redirect_uri),
             (''scope'', (case scope of None \<Rightarrow> ''basic,netdisk'' | Some s \<Rightarrow> s))];
          query_string = join ''&'' (map (\<lambda>(k, v). k @ ''='' @ v) params)
      in ''https://openapi.baidu.com/oauth/2.0/authorize?'' @ query_string)"

subsection \<open>Token management\<close>

text \<open>
  The Python \<open>t + v\<close> for an integer \<open>t\<close> and a value of the payload: a \<open>bool\<close> is an
  integer in Python, every other non-number raises \<open>TypeError\<close>.
\<close>

fun add_int :: "int \<Rightarrow> jval \<Rightarrow> error + int" where
  "add_int t (JInt n) = Inr (t + n)"
| "add_int t (JBool b) = Inr (t + (if b then 1 else 0))"
| "add_int t _ = Inl TypeError"

definition token_url :: string where
  "token_url = ''https://openapi.baidu.com/oauth/2.0/token''"

text \<open>
  \<open>refresh_access_token\<close>. The attributes are assigned one after the other, so an
  exception of the last assignment leaves the first ones done.
\<close>

definition refresh_access_token :: "client \<Rightarrow> world \<Rightarrow> payload outcome" where
  "refresh_access_token c w =
     (if \<not> truthy (refresh_token c) then (Inl (ValueError msg_no_refresh_token), c, w)
      else
        (case session_get token_url
                [(''grant_type'', Val (JStr ''refresh_token'')),
                 (''refresh_token'', Val (refresh_token c)),
                 (''client_id'', Val (JStr (app_key c))),
                 (''client_secret'', Val (JStr (secret_key c)))] False w of
           (Inl e, w) \<Rightarrow> (Inl e, c, w)
         | (Inr response, w) \<Rightarrow>
             (case response_json response of
                Inl e \<Rightarrow> (Inl e, c, w)
              | Inr result \<Rightarrow>
                  (case result ''access_token'' of
                     None \<Rightarrow> (Inr result, c, w)
                   | Some tok \<Rightarrow>
                       (let c = c\<lparr>access_token := tok\<rparr>;
                            c = (case result ''refresh_token'' of
                                   None \<Rightarrow> c
                                 | Some rt \<Rightarrow> c\<lparr>refresh_token := rt\<rparr>)
                        in (case result ''expires_in'' of
                              None \<Rightarrow> (Inr result, c, w)
                            | Some e \<Rightarrow>
                                (case add_int (clock w) e of
                                   Inl err \<Rightarrow> (Inl err, c, w)
                                 | Inr t \<Rightarrow> (Inr result, c\<lparr>token_expire_time := t\<rparr>, w))))))))"

text \<open>\<open>_check_token\<close>.\<close>

definition check_token :: "client \<Rightarrow> world \<Rightarrow> unit outcome" where
  "check_token c w =
     (if \<not> truthy (access_token c) then (Inl (ValueError msg_no_access_token), c, w)
      else
        (let current_time = clock w
         in if token_expire_time c > 0 \<and> current_time \<ge> token_expire_time c - 60 \<and> auto_refresh c
            then and_then (refresh_access_token c w) (\<lambda>_ c w. (Inr (), c, w))
            else (Inr (), c, w)))"

subsection \<open>Pass-through operations\<close>

definition get_user_info :: "client \<Rightarrow> world \<Rightarrow> payload outcome" where
  "get_user_info c w =
     and_then (check_token c w) (\<lambda>_ c w.
       return_json c
         (session_get ''https://pan.baidu.com/rest/2.0/xpan/nas?method=uinfo''
            [(''access_token'', Val (access_token c))] False w))"

definition get_quota :: "client \<Rightarrow> world \<Rightarrow> payload outcome" where
  "get_quota c w =
     and_then (check_token c w) (\<lambda>_ c w.
       return_json c
         (session_get ''https://pan.baidu.com/api/quota''
            [(''access_token'', Val (access_token c))] False w))"

definition list_files ::
  "client \<Rightarrow> string \<Rightarrow> string \<Rightarrow> bool \<Rightarrow> int \<Rightarrow> int \<Rightarrow> world \<Rightarrow> payload outcome" where
  "list_files c dir_path order desc start limit w =
     and_then (check_token c w) (\<lambda>_ c w.
       return_json c
         (session_get ''https://pan.baidu.com/rest/2.0/xpan/file?method=list''
            [(''access_token'', Val (access_token c)),
             (''dir'', Val (JStr dir_path)),
             (''order'', Val (JStr order)),
             (''desc'', Val (JInt (if desc then 1 else 0))),
             (''start'', Val (JInt start)),
             (''limit'', Val (JInt limit))] False w))"

definition search_files :: "client \<Rightarrow> string \<Rightarrow> string \<Rightarrow> bool \<Rightarrow> world \<Rightarrow> payload outcome" where
  "search_files c keyword dir_path recursive w =
     and_then (check_token c w) (\<lambda>_ c w.
       return_json c
         (session_get ''https://pan.baidu.com/rest/2.0/xpan/file?method=search''
            [(''access_token'', Val (access_token c)),
             (''key'', Val (JStr keyword)),
             (''dir'', Val (JStr dir_path)),
             (''recursion'', Val (JInt (if recursive then 1 else 0)))] False w))"

definition get_file_info :: "client \<Rightarrow> string \<Rightarrow> world \<Rightarrow> payload outcome" where
  "get_file_info c file_path w =
     and_then (check_token c w) (\<lambda>_ c w.
       return_json c
         (session_get ''https://pan.baidu.com/rest/2.0/xpan/multimedia?method=filemetas''
            [(''access_token'', Val (access_token c)),
             (''path'', Val (JStr file_path))] False w))"

definition create_directory :: "client \<Rightarrow> string \<Rightarrow> world \<Rightarrow> payload outcome" where
  "create_directory c dir_path w =
     and_then (check_token c w) (\<lambda>_ c w.
       return_json c
         (session_post ''https://pan.baidu.com/rest/2.0/xpan/file?method=create''
            [(''access_token'', Val (access_token c))]
            [(''path'', Val (JStr dir_path))] [] w))"

definition delete_files :: "client \<Rightarrow> string list \<Rightarrow> world \<Rightarrow> payload outcome" where
  "delete_files c file_paths w =
     and_then (check_token c w) (\<lambda>_ c w.
       return_json c
         (session_post ''https://pan.baidu.com/rest/2.0/xpan/file?method=filemanager&opera=delete''
            [(''access_token'', Val (access_token c))]
            [(''filelist'', Dumps (JList (map JStr file_paths)))] [] w))"

definition rename_file :: "client \<Rightarrow> string \<Rightarrow> string \<Rightarrow> world \<Rightarrow> payload outcome" where
  "rename_file c file_path new_name w =
     and_then (check_token c w) (\<lambda>_ c w.
       return_json c
         (session_post ''https://pan.baidu.com/rest/2.0/xpan/file?method=filemanager&opera=rename''
            [(''access_token'', Val (access_token c))]
            [(''filelist'',
              Dumps (JList [JObj [(''path'', JStr file_path), (''newname'', JStr new_name)]]))] [] w))"

text \<open>\<open>file_list\<close> is the caller's list of dicts, passed to \<open>json.dumps\<close> as it is.\<close>

definition move_files :: "client \<Rightarrow> jval \<Rightarrow> world \<Rightarrow> payload outcome" where
  "move_files c file_list w =
     and_then (check_token c w) (\<lambda>_ c w.
       return_json c
         (session_post ''https://pan.baidu.com/rest/2.0/xpan/file?method=filemanager&opera=move''
            [(''access_token'', Val (access_token c))]
            [(''filelist'', Dumps file_list)] [] w))"

definition copy_files :: "client \<Rightarrow> jval \<Rightarrow> world \<Rightarrow> payload outcome" where
  "copy_files c file_list w =
     and_then (check_token c w) (\<lambda>_ c w.
       return_json c
         (session_post ''https://pan.baidu.com/rest/2.0/xpan/file?method=filemanager&opera=copy''
            [(''access_token'', Val (access_token c))]
            [(''filelist'', Dumps file_list)] [] w))"

text \<open>\<open>create_share\<close>; \<open>password = None\<close> is Python's \<open>None\<close>.\<close>

definition create_share ::
  "client \<Rightarrow> string list \<Rightarrow> int \<Rightarrow> string option \<Rightarrow> string \<Rightarrow> world \<Rightarrow> payload outcome" where
  "create_share c file_paths period password description w =
     and_then (check_token c w) (\<lambda>_ c w.
       (let data =
              [(''path_list'', Dumps (JList (map JStr file_paths))),
               (''period'', Val (JInt period)),
               (''channel_list'', Dumps (JList [JInt 0])),
               (''schannel'', Val (JInt 4)),
               (''description'', Val (JStr description))];
            data = (case password of
                      None \<Rightarrow> data
                    | Some pw \<Rightarrow> if pw \<noteq> [] then data @ [(''pwd'', Val (JStr pw))] else data)
        in return_json c
             (session_post ''https://pan.baidu.com/rest/2.0/xpan/share?method=set''
                [(''access_token'', Val (access_token c))] data [] w)))"

definition list_shares :: "client \<Rightarrow> int \<Rightarrow> int \<Rightarrow> world \<Rightarrow> payload outcome" where
  "list_shares c start limit w =
     and_then (check_token c w) (\<lambda>_ c w.
       return_json c
         (session_get ''https://pan.baidu.com/rest/2.0/xpan/share?method=list''
            [(''access_token'', Val (access_token c)),
             (''start'', Val (JInt start)),
             (''limit'', Val (JInt limit))] False w))"

definition cancel_share :: "client \<Rightarrow> string list \<Rightarrow> world \<Rightarrow> payload outcome" where
  "cancel_share c share_ids w =
     and_then (check_token c w) (\<lambda>_ c w.
       return_json c
         (session_post ''https://pan.baidu.com/rest/2.0/xpan/share?method=cancel''
            [(''access_token'', Val (access_token c))]
            [(''shareid_list'', Dumps (JList (map JStr share_ids)))] [] w))"

subsection \<open>Download\<close>

definition get_download_link :: "client \<Rightarrow> string \<Rightarrow> world \<Rightarrow> jval outcome" where
  "get_download_link c file_path w =
     and_then (check_token c w) (\<lambda>_ c w.
       (case session_get ''https://pan.baidu.com/rest/2.0/xpan/file?method=download''
               [(''access_token'', Val (access_token c)),
                (''path'', Val (JStr file_path))] False w of
          (Inl e, w) \<Rightarrow> (Inl e, c, w)
        | (Inr response, w) \<Rightarrow>
            if status_code response = 200
            then (case response_json response of
                    Inl e \<Rightarrow> (Inl e, c, w)
                  | Inr j \<Rightarrow> (Inr (case j ''dlink'' of None \<Rightarrow> JStr [] | Some v \<Rightarrow> v), c, w))
            else (Inr (JStr []), c, w)))"

text \<open>
  The loop \<open>for chunk in response.iter_content(...): if chunk: f.write(chunk)\<close>: what the
  file holds after the pieces have been written.
\<close>

definition write_chunks :: "bytes list \<Rightarrow> bytes" where
  "write_chunks chunks = foldl (\<lambda>data chunk. if chunk \<noteq> [] then data @ chunk else data) [] chunks"

text \<open>
  The body of the \<open>try\<close> block of \<open>download_file\<close>. A link that is not a string is
  refused by \<open>requests\<close> with an exception before anything is sent. \<open>open(..., 'wb')\<close>
  creates or truncates the file; the pieces received before the stream breaks are in
  the file when the exception leaves the \<open>with\<close> block.
\<close>

definition download_try :: "jval \<Rightarrow> string \<Rightarrow> int \<Rightarrow> world \<Rightarrow> (error + bool) \<times> world" where
  "download_try download_link local_path chunk_size w =
     (case download_link of
        JStr u \<Rightarrow>
          (case session_get u [] True w of
             (Inl e, w) \<Rightarrow> (Inl e, w)
           | (Inr response, w) \<Rightarrow>
               if status_code response \<noteq> 200 then (Inr False, w)
               else if \<not> writable w local_path then (Inl OSError, w)
               else
                 (let w = w\<lparr>disk := (disk w)(local_path \<mapsto> [])\<rparr>;
                      w = w\<lparr>disk := (disk w)(local_path \<mapsto>
                                write_chunks (iter_content response chunk_size))\<rparr>
                  in if stream_breaks response then (Inl RequestException, w)
                     else (Inr True, w)))
      | _ \<Rightarrow> (Inl RequestException, w))"

text \<open>
  \<open>download_file\<close>: the link is resolved outside the \<open>try\<close>; the handler
  \<open>except Exception\<close> prints and returns \<open>False\<close> (the printing is not modelled).
\<close>

definition download_file :: "client \<Rightarrow> string \<Rightarrow> string \<Rightarrow> int \<Rightarrow> world \<Rightarrow> bool outcome" where
  "download_file c file_path local_path chunk_size w =
     and_then (get_download_link c file_path w) (\<lambda>download_link c w.
       if \<not> truthy download_link then (Inr False, c, w)
       else
         (case download_try download_link local_path chunk_size w of
            (Inl e, w) \<Rightarrow> (Inr False, c, w)
          | (Inr b, w) \<Rightarrow> (Inr b, c, w)))"

subsection \<open>Upload\<close>

text \<open>
  \<open>hashlib\<close> is Python's library, not code of this module: the MD5 digest (in hex) of a
  message is a parameter \<open>md5\<close> of the functions that hash. An \<open>md5\<close> object is the
  message it has been fed so far, by the library's contract that successive \<open>update\<close>
  calls are one \<open>update\<close> with the concatenation.
\<close>

type_synonym md5_object = bytes

definition md5_new :: md5_object where
  "md5_new = []"

definition md5_update :: "md5_object \<Rightarrow> bytes \<Rightarrow> md5_object" where
  "md5_update h chunk = h @ chunk"

definition md5_hexdigest :: "(bytes \<Rightarrow> string) \<Rightarrow> md5_object \<Rightarrow> string" where
  "md5_hexdigest md5 h = md5 h"

text \<open>
  An open file is the part of its content that has not been read yet: \<open>f.read(n)\<close>
  returns \<open>take n f\<close> and leaves \<open>drop n f\<close>.

  The loop \<open>for chunk in iter(lambda: f.read(4096), b""): md5.update(chunk)\<close>.
\<close>

function md5_read_loop :: "md5_object \<Rightarrow> bytes \<Rightarrow> md5_object" where
  "md5_read_loop h f =
     (let chunk = take 4096 f; f' = drop 4096 f
      in if chunk = [] then h else md5_read_loop (md5_update h chunk) f')"
  by pat_completeness auto
termination
  by (relation "measure (\<lambda>(h, f). length f)") auto

text \<open>\<open>_calculate_file_md5\<close>; \<open>open\<close> raises when there is no such file.\<close>

definition calculate_file_md5 :: "(bytes \<Rightarrow> string) \<Rightarrow> world \<Rightarrow> string \<Rightarrow> error + string" where
  "calculate_file_md5 md5 w file_path =
     (case disk w file_path of
        None \<Rightarrow> Inl OSError
      | Some content \<Rightarrow> Inr (md5_hexdigest md5 (md5_read_loop md5_new content)))"

text \<open>\<open>os.path.getsize\<close>.\<close>

definition getsize :: "world \<Rightarrow> string \<Rightarrow> error + nat" where
  "getsize w path = (case disk w path of None \<Rightarrow> Inl OSError | Some content \<Rightarrow> Inr (length content))"

text \<open>A call followed by \<open>return response.json()\<close>, in a method that leaves the client as it is.\<close>

definition json_of :: "(error + reply) \<times> world \<Rightarrow> (error + payload) \<times> world" where
  "json_of rw =
     (case rw of
        (Inl e, w) \<Rightarrow> (Inl e, w)
      | (Inr response, w) \<Rightarrow> (response_json response, w))"

definition upload_url :: string where
  "upload_url = ''https://pan.baidu.com/rest/2.0/xpan/file?method=upload''"

definition precreate_url :: string where
  "precreate_url = ''https://pan.baidu.com/rest/2.0/xpan/file?method=precreate''"

definition create_url :: string where
  "create_url = ''https://pan.baidu.com/rest/2.0/xpan/file?method=create''"

text \<open>\<open>_upload_small_file\<close>: the open file is the multipart body.\<close>

definition upload_small_file ::
  "client \<Rightarrow> string \<Rightarrow> string \<Rightarrow> string \<Rightarrow> world \<Rightarrow> (error + payload) \<times> world" where
  "upload_small_file c local_path remote_path ondup w =
     (case disk w local_path of
        None \<Rightarrow> (Inl OSError, w)
      | Some f \<Rightarrow>
          json_of (session_post upload_url
            [(''access_token'', Val (access_token c)),
             (''path'', Val (JStr remote_path)),
             (''ondup'', Val (JStr ondup))] [] [(''file'', f)] w))"

text \<open>\<open>_precreate_file\<close>; the argument \<open>md5\<close> of the source is not sent.\<close>

definition precreate_file ::
  "client \<Rightarrow> string \<Rightarrow> nat \<Rightarrow> string \<Rightarrow> string \<Rightarrow> world \<Rightarrow> (error + payload) \<times> world" where
  "precreate_file c remote_path file_size md5sum ondup w =
     json_of (session_post precreate_url
       [(''access_token'', Val (access_token c))]
       [(''path'', Val (JStr remote_path)),
        (''size'', Val (JInt (int file_size))),
        (''isdir'', Val (JInt 0)),
        (''autoinit'', Val (JInt 1)),
        (''rtype'', Val (JInt 3)),
        (''block_list'', Dumps (JList [])),
        (''ondup'', Val (JStr ondup))] [] w)"

text \<open>\<open>_upload_chunk\<close>.\<close>

definition upload_chunk ::
  "client \<Rightarrow> bytes \<Rightarrow> string \<Rightarrow> jval \<Rightarrow> nat \<Rightarrow> world \<Rightarrow> (error + payload) \<times> world" where
  "upload_chunk c chunk remote_path upload_id block_index w =
     json_of (session_post upload_url
       [(''access_token'', Val (access_token c)),
        (''path'', Val (JStr remote_path)),
        (''uploadid'', Val upload_id),
        (''partseq'', Val (JInt (int block_index)))] [] [(''file'', chunk)] w)"

text \<open>\<open>_create_file\<close>.\<close>

definition create_file ::
  "client \<Rightarrow> string \<Rightarrow> nat \<Rightarrow> jval \<Rightarrow> string list \<Rightarrow> string \<Rightarrow> world \<Rightarrow> (error + payload) \<times> world" where
  "create_file c remote_path file_size upload_id block_list ondup w =
     json_of (session_post create_url
       [(''access_token'', Val (access_token c))]
       [(''path'', Val (JStr remote_path)),
        (''size'', Val (JInt (int file_size))),
        (''isdir'', Val (JInt 0)),
        (''uploadid'', Val upload_id),
        (''block_list'', Dumps (JList (map JStr block_list))),
        (''ondup'', Val (JStr ondup))] [] w)"

definition chunk_size :: nat where
  "chunk_size = 4 * 1024 * 1024"

text \<open>
  The \<open>while True\<close> loop of \<open>_upload_large_file\<close>. It ends by \<open>break\<close> with the block
  list, by the \<open>return result\<close> inside it, or by an exception of the chunk upload.
\<close>

datatype loop_exit = Return payload | Break "string list"

function upload_chunks ::
  "(bytes \<Rightarrow> string) \<Rightarrow> client \<Rightarrow> string \<Rightarrow> jval \<Rightarrow> bytes \<Rightarrow> nat \<Rightarrow> string list \<Rightarrow> world
     \<Rightarrow> (error + loop_exit) \<times> world" where
  "upload_chunks md5 c remote_path upload_id f block_index block_list w =
     (let chunk = take chunk_size f; f' = drop chunk_size f
      in if chunk = [] then (Inr (Break block_list), w)
         else
           (case upload_chunk c chunk remote_path upload_id block_index w of
              (Inl e, w') \<Rightarrow> (Inl e, w')
            | (Inr result, w') \<Rightarrow>
                if errno_set result then (Inr (Return result), w')
                else upload_chunks md5 c remote_path upload_id f' (block_index + 1)
                       (block_list @ [md5 chunk]) w'))"
  by pat_completeness auto
termination
  by (relation "measure (\<lambda>(md5, c, remote_path, upload_id, f, block_index, block_list, w). length f)")
     (auto simp: chunk_size_def)

text \<open>\<open>_upload_large_file\<close>.\<close>

definition upload_large_file ::
  "(bytes \<Rightarrow> string) \<Rightarrow> client \<Rightarrow> string \<Rightarrow> string \<Rightarrow> string \<Rightarrow> world
     \<Rightarrow> (error + payload) \<times> world" where
  "upload_large_file md5 c local_path remote_path ondup w =
     (case getsize w local_path of
        Inl e \<Rightarrow> (Inl e, w)
      | Inr file_size \<Rightarrow>
          (case calculate_file_md5 md5 w local_path of
             Inl e \<Rightarrow> (Inl e, w)
           | Inr md5sum \<Rightarrow>
               (case precreate_file c remote_path file_size md5sum ondup w of
                  (Inl e, w) \<Rightarrow> (Inl e, w)
                | (Inr precreate_result, w) \<Rightarrow>
                    if errno_set precreate_result then (Inr precreate_result, w)
                    else
                      (let upload_id = (case precreate_result ''uploadid'' of
                                          None \<Rightarrow> JStr []
                                        | Some v \<Rightarrow> v)
                       in if \<not> truthy upload_id
                          then (Inr [''errno'' \<mapsto> JInt (- 1), ''errmsg'' \<mapsto> JStr msg_no_upload_id], w)
                          else
                            (case disk w local_path of
                               None \<Rightarrow> (Inl OSError, w)
                             | Some f \<Rightarrow>
                                 (case upload_chunks md5 c remote_path upload_id f 0 [] w of
                                    (Inl e, w) \<Rightarrow> (Inl e, w)
                                  | (Inr (Return result), w) \<Rightarrow> (Inr result, w)
                                  | (Inr (Break block_list), w) \<Rightarrow>
                                      create_file c remote_path file_size upload_id block_list
                                        ondup w))))))"

text \<open>\<open>upload_file\<close>.\<close>

definition upload_file ::
  "(bytes \<Rightarrow> string) \<Rightarrow> client \<Rightarrow> string \<Rightarrow> string \<Rightarrow> string \<Rightarrow> world \<Rightarrow> payload outcome" where
  "upload_file md5 c local_path remote_path ondup w =
     and_then (check_token c w) (\<lambda>_ c w.
       if disk w local_path = None
       then (Inl (FileNotFoundError (msg_file_missing @ local_path)), c, w)
       else
         (case getsize w local_path of
            Inl e \<Rightarrow> (Inl e, c, w)
          | Inr file_size \<Rightarrow>
              if file_size > 4 * 1024 * 1024
              then (case upload_large_file md5 c local_path remote_path ondup w of
                      (r, w) \<Rightarrow> (r, c, w))
              else (case upload_small_file c local_path remote_path ondup w of
                      (r, w) \<Rightarrow> (r, c, w))))"

subsection \<open>Observing a run\<close>

text \<open>
  Notions used to state what a run does: the reply the next request will get, the world
  after a request has been answered, a reply that returns a payload reporting no error,
  and the requests of the upload protocol written out.
\<close>

definition reply_to_next :: "world \<Rightarrow> reply" where
  "reply_to_next w = server w (length (sent w))"

definition after_request :: "request \<Rightarrow> world \<Rightarrow> world" where
  "after_request req w =
     w\<lparr>sent := sent w @ [req], clock := clock w + int (took (reply_to_next w))\<rparr>"

definition answered_ok :: "reply \<Rightarrow> bool" where
  "answered_ok r =
     (\<not> raises r \<and> (case json_body r of None \<Rightarrow> False | Some j \<Rightarrow> \<not> errno_set j))"

definition refresh_request :: "client \<Rightarrow> request" where
  "refresh_request c =
     \<lparr>meth = GET, url = token_url,
      params = [(''grant_type'', Val (JStr ''refresh_token'')),
                (''refresh_token'', Val (refresh_token c)),
                (''client_id'', Val (JStr (app_key c))),
                (''client_secret'', Val (JStr (secret_key c)))],
      form = [], files = [], stream = False\<rparr>"

definition direct_upload_request :: "client \<Rightarrow> bytes \<Rightarrow> string \<Rightarrow> string \<Rightarrow> request" where
  "direct_upload_request c content remote_path ondup =
     \<lparr>meth = POST, url = upload_url,
      params = [(''access_token'', Val (access_token c)),
                (''path'', Val (JStr remote_path)),
                (''ondup'', Val (JStr ondup))],
      form = [], files = [(''file'', content)], stream = False\<rparr>"

definition precreate_request :: "client \<Rightarrow> string \<Rightarrow> nat \<Rightarrow> string \<Rightarrow> request" where
  "precreate_request c remote_path file_size ondup =
     \<lparr>meth = POST, url = precreate_url,
      params = [(''access_token'', Val (access_token c))],
      form = [(''path'', Val (JStr remote_path)),
              (''size'', Val (JInt (int file_size))),
              (''isdir'', Val (JInt 0)),
              (''autoinit'', Val (JInt 1)),
              (''rtype'', Val (JInt 3)),
              (''block_list'', Dumps (JList [])),
              (''ondup'', Val (JStr ondup))],
      files = [], stream = False\<rparr>"

definition chunk_request :: "client \<Rightarrow> bytes \<Rightarrow> string \<Rightarrow> jval \<Rightarrow> nat \<Rightarrow> request" where
  "chunk_request c chunk remote_path upload_id block_index =
     \<lparr>meth = POST, url = upload_url,
      params = [(''access_token'', Val (access_token c)),
                (''path'', Val (JStr remote_path)),
                (''uploadid'', Val upload_id),
                (''partseq'', Val (JInt (int block_index)))],
      form = [], files = [(''file'', chunk)], stream = False\<rparr>"

definition finalize_request ::
  "client \<Rightarrow> string \<Rightarrow> nat \<Rightarrow> jval \<Rightarrow> string list \<Rightarrow> string \<Rightarrow> request" where
  "finalize_request c remote_path file_size upload_id block_list ondup =
     \<lparr>meth = POST, url = create_url,
      params = [(''access_token'', Val (access_token c))],
      form = [(''path'', Val (JStr remote_path)),
              (''size'', Val (JInt (int file_size))),
              (''isdir'', Val (JInt 0)),
              (''uploadid'', Val upload_id),
              (''block_list'', Dumps (JList (map JStr block_list))),
              (''ondup'', Val (JStr ondup))],
      files = [], stream = False\<rparr>"


text \<open>A direct upload: a request to the upload endpoint that names no upload session.\<close>

definition is_direct_upload :: "request \<Rightarrow> bool" where
  "is_direct_upload r = (url r = upload_url \<and> map_of (params r) ''uploadid'' = None)"


text \<open>
  The chunked protocol written out. \<open>file_chunks\<close> lists the successive reads of
  \<open>chunk_size\<close> bytes of a file, up to the first empty one. \<open>chunked_requests\<close> is the
  whole sequence of a chunked upload: the precreate request, one chunk request for each
  read, numbered from 0 in file order, and the finalize request with the digests of the
  reads in the same order.
\<close>

function file_chunks :: "bytes \<Rightarrow> bytes list" where
  "file_chunks f = (if f = [] then [] else take chunk_size f # file_chunks (drop chunk_size f))"
  by pat_completeness auto
termination
  by (relation "measure length") (auto simp: chunk_size_def)

definition chunk_requests ::
  "client \<Rightarrow> bytes list \<Rightarrow> string \<Rightarrow> jval \<Rightarrow> nat \<Rightarrow> request list" where
  "chunk_requests c chunks remote_path upload_id k =
     map (\<lambda>(j, chunk). chunk_request c chunk remote_path upload_id j) (enumerate k chunks)"

definition chunked_requests ::
  "(bytes \<Rightarrow> string) \<Rightarrow> client \<Rightarrow> bytes \<Rightarrow> string \<Rightarrow> jval \<Rightarrow> string \<Rightarrow> request list" where
  "chunked_requests hash c content remote_path upload_id ondup =
     precreate_request c remote_path (length content) ondup #
     chunk_requests c (file_chunks content) remote_path upload_id 0 @
     [finalize_request c remote_path (length content) upload_id
        (map hash (file_chunks content)) ondup]"

text \<open>
  How far the vendor lets a chunked upload go. The upload id is the \<open>uploadid\<close> of the
  precreate reply; the precreate request is granted when its reply reports no error and
  holds a non-empty upload id. \<open>accepted_from srv k n\<close> counts the leading replies, among
  the \<open>n\<close> replies numbered from \<open>k\<close>, that report no error. \<open>requests_sent srv k n\<close>
  is the number of requests of a chunked upload of \<open>n\<close> chunks that are sent when the
  precreate request is number \<open>k\<close>: each request after the first is sent once all the
  requests before it have been accepted.
\<close>

definition granted_upload_id :: "reply \<Rightarrow> jval" where
  "granted_upload_id r =
     (case json_body r of
        None \<Rightarrow> JStr []
      | Some pre \<Rightarrow> (case pre ''uploadid'' of None \<Rightarrow> JStr [] | Some v \<Rightarrow> v))"

definition precreate_granted :: "reply \<Rightarrow> bool" where
  "precreate_granted r = (answered_ok r \<and> truthy (granted_upload_id r))"

primrec accepted_from :: "(nat \<Rightarrow> reply) \<Rightarrow> nat \<Rightarrow> nat \<Rightarrow> nat" where
  "accepted_from srv k 0 = 0"
| "accepted_from srv k (Suc n) =
     (if answered_ok (srv k) then Suc (accepted_from srv (Suc k) n) else 0)"

definition requests_sent :: "(nat \<Rightarrow> reply) \<Rightarrow> nat \<Rightarrow> nat \<Rightarrow> nat" where
  "requests_sent srv k n =
     (if precreate_granted (srv k) then accepted_from srv (Suc k) n + 2 else 1)"

subsection \<open>Example inputs\<close>

text \<open>Concrete clients, files and vendors, for the instances of the theorems below.\<close>

definition toy_digest :: "bytes \<Rightarrow> string" where
  "toy_digest bs = map (\<lambda>b. char_of (unat b)) bs"

definition json_reply :: "payload \<Rightarrow> reply" where
  "json_reply j =
     \<lparr>raises = False, took = 0, status_code = 200, json_body = Some j,
      iter_content = (\<lambda>n. []), stream_breaks = False\<rparr>"

definition world_with :: "(nat \<Rightarrow> reply) \<Rightarrow> (string \<rightharpoonup> bytes) \<Rightarrow> world" where
  "world_with srv fl =
     \<lparr>sent = [], server = srv, clock = 1700000000, disk = fl, writable = (\<lambda>p. True)\<rparr>"

definition example_client :: client where
  "example_client = init ''app'' ''secret'' (JStr ''token'') (JStr ''refresh'') True"

definition blank_client :: client where
  "blank_client = init ''app'' ''secret'' JNull JNull True"

definition stale_client :: client where
  "stale_client = example_client\<lparr>token_expire_time := 1700000030\<rparr>"

definition renewed_client :: client where
  "renewed_client =
     example_client\<lparr>access_token := JStr ''token2'', refresh_token := JStr ''refresh2'',
                    token_expire_time := 1702592000\<rparr>"

definition small_file :: bytes where
  "small_file = replicate 100 0x61"

definition two_chunk_file :: bytes where
  "two_chunk_file = replicate (4 * 1024 * 1024 + 1) 0"

definition three_chunk_file :: bytes where
  "three_chunk_file = replicate (2 * (4 * 1024 * 1024) + 1) 0"

definition token_payload :: payload where
  "token_payload =
     [''access_token'' \<mapsto> JStr ''token2'', ''refresh_token'' \<mapsto> JStr ''refresh2'',
      ''expires_in'' \<mapsto> JInt 2592000]"

definition denial_payload :: payload where
  "denial_payload = [''error'' \<mapsto> JStr ''expired_token'']"

definition precreate_payload :: payload where
  "precreate_payload = [''errno'' \<mapsto> JInt 0, ''uploadid'' \<mapsto> JStr ''N1-MTAuMjI4'']"

definition success_payload :: payload where
  "success_payload = [''errno'' \<mapsto> JInt 0]"

definition failure_payload :: payload where
  "failure_payload = [''errno'' \<mapsto> JInt 31299]"


definition token_server :: "nat \<Rightarrow> reply" where
  "token_server k = json_reply token_payload"

definition denying_server :: "nat \<Rightarrow> reply" where
  "denying_server k = json_reply denial_payload"

definition accepting_server :: "nat \<Rightarrow> reply" where
  "accepting_server k = (if k = 0 then json_reply precreate_payload else json_reply success_payload)"

definition failing_server :: "nat \<Rightarrow> reply" where
  "failing_server k =
     (if k = 0 then json_reply precreate_payload
      else if k = 1 then json_reply success_payload
      else json_reply failure_payload)"

definition forgetful_server :: "nat \<Rightarrow> reply" where
  "forgetful_server k = json_reply success_payload"




definition hollow_payload :: payload where
  "hollow_payload =
     [''access_token'' \<mapsto> JStr ''token2'', ''refresh_token'' \<mapsto> JStr [],
      ''expires_in'' \<mapsto> JInt 3600]"

definition hollow_server :: "nat \<Rightarrow> reply" where
  "hollow_server k = json_reply hollow_payload"

definition hollow_client :: client where
  "hollow_client =
     example_client\<lparr>access_token := JStr ''token2'', refresh_token := JStr [],
                    token_expire_time := 1700003600\<rparr>"

section \<open>Properties\<close>

declare md5_read_loop.simps [simp del]
declare upload_chunks.simps [simp del]
declare file_chunks.simps [simp del]

subsection \<open>Authorisation URL\<close>

text \<open>
  C9. For every redirect URI, \<open>get_auth_url\<close> returns the authorisation endpoint followed
  by a query string made of \<open>client_id\<close>, \<open>response_type=code\<close>, \<open>redirect_uri\<close> and
  \<open>scope\<close>, in that order, each value copied as it is (no encoding), and the scope is
  \<open>basic,netdisk\<close> when the caller gives none.
\<close>

theorem get_auth_url_query:
  "get_auth_url c redirect_uri scope =
     ''https://openapi.baidu.com/oauth/2.0/authorize?'' @
     ''client_id='' @ app_key c @
     ''&response_type=code'' @
     ''&redirect_uri='' @ redirect_uri @
     ''&scope='' @ (case scope of None \<Rightarrow> ''basic,netdisk'' | Some s \<Rightarrow> s)"
  by (simp add: get_auth_url_def)

subsection \<open>Basic facts about requests\<close>

lemma after_request_simps [simp]:
  "sent (after_request req w) = sent w @ [req]"
  "server (after_request req w) = server w"
  "disk (after_request req w) = disk w"
  "writable (after_request req w) = writable w"
  by (simp_all add: after_request_def)

lemma send_eq:
  "send req w =
     (if raises (reply_to_next w) then Inl RequestException else Inr (reply_to_next w),
      after_request req w)"
  by (simp add: send_def Let_def after_request_def reply_to_next_def)

lemma json_of_send:
  "json_of (send req w) =
     (if raises (reply_to_next w) then Inl RequestException else response_json (reply_to_next w),
      after_request req w)"
  by (simp add: json_of_def send_eq)

lemma and_then_Inl: "and_then (Inl e, c, w) f = (Inl e, c, w)"
  by (simp add: and_then_def)

lemma and_then_Inr: "and_then (Inr x, c, w) f = f x c w"
  by (simp add: and_then_def)

lemma sent_and_then_unit:
  "sent (snd (snd (and_then m (\<lambda>_ c w. (Inr (), c, w))))) = sent (snd (snd m))"
  by (cases m) (auto simp: and_then_def split: sum.splits)

lemma example_world_simps [simp]:
  "sent (world_with srv fl) = []"
  "server (world_with srv fl) = srv"
  "clock (world_with srv fl) = 1700000000"
  "disk (world_with srv fl) = fl"
  "writable (world_with srv fl) p"
  by (simp_all add: world_with_def)

lemma json_reply_simps [simp]:
  "\<not> raises (json_reply j)"
  "took (json_reply j) = 0"
  "status_code (json_reply j) = 200"
  "json_body (json_reply j) = Some j"
  "\<not> stream_breaks (json_reply j)"
  by (simp_all add: json_reply_def)

lemma example_client_simps [simp]:
  "access_token example_client = JStr ''token''"
  "refresh_token example_client = JStr ''refresh''"
  "auto_refresh example_client"
  "token_expire_time example_client = 0"
  "app_key example_client = ''app''"
  "secret_key example_client = ''secret''"
  by (simp_all add: example_client_def init_def)

lemma example_file_lengths [simp]:
  "length small_file = 100"
  "length two_chunk_file = 4194305"
  "length three_chunk_file = 8388609"
  by (simp_all add: small_file_def two_chunk_file_def three_chunk_file_def)

subsection \<open>Token management\<close>

lemma check_token_unset:
  "\<not> truthy (access_token c) \<Longrightarrow> check_token c w = (Inl (ValueError msg_no_access_token), c, w)"
  by (simp add: check_token_def)

text \<open>
  C5. When no access token is set (the attribute is \<open>None\<close> or empty), every token-gated
  operation (user info, quota, list, search, metadata, the directory and file
  operations, download, upload, the share operations) raises the \<open>ValueError\<close> of
  \<open>_check_token\<close>, the module's local precondition error for a missing token, and leaves
  the client and the world as they were: no request has been sent.
\<close>

theorem no_token_fails_locally:
  assumes "\<not> truthy (access_token c)"
  shows "get_user_info c w = (Inl (ValueError msg_no_access_token), c, w)
    \<and> get_quota c w = (Inl (ValueError msg_no_access_token), c, w)
    \<and> list_files c dir_path order desc start limit w = (Inl (ValueError msg_no_access_token), c, w)
    \<and> search_files c keyword dir_path recursive w = (Inl (ValueError msg_no_access_token), c, w)
    \<and> get_file_info c file_path w = (Inl (ValueError msg_no_access_token), c, w)
    \<and> create_directory c dir_path w = (Inl (ValueError msg_no_access_token), c, w)
    \<and> delete_files c file_paths w = (Inl (ValueError msg_no_access_token), c, w)
    \<and> rename_file c file_path new_name w = (Inl (ValueError msg_no_access_token), c, w)
    \<and> move_files c file_list w = (Inl (ValueError msg_no_access_token), c, w)
    \<and> copy_files c file_list w = (Inl (ValueError msg_no_access_token), c, w)
    \<and> get_download_link c file_path w = (Inl (ValueError msg_no_access_token), c, w)
    \<and> download_file c file_path local_path csize w = (Inl (ValueError msg_no_access_token), c, w)
    \<and> upload_file hash c local_path remote_path ondup w = (Inl (ValueError msg_no_access_token), c, w)
    \<and> create_share c file_paths period password description w =
        (Inl (ValueError msg_no_access_token), c, w)
    \<and> list_shares c start limit w = (Inl (ValueError msg_no_access_token), c, w)
    \<and> cancel_share c share_ids w = (Inl (ValueError msg_no_access_token), c, w)"
  using assms
  by (simp add: check_token_unset and_then_Inl get_user_info_def get_quota_def list_files_def
      search_files_def get_file_info_def create_directory_def delete_files_def rename_file_def
      move_files_def copy_files_def get_download_link_def download_file_def upload_file_def
      create_share_def list_shares_def cancel_share_def)

theorem no_token_fails_locally_witness:
  "\<not> truthy (access_token blank_client)
   \<and> get_quota blank_client (world_with forgetful_server Map.empty) =
       (Inl (ValueError msg_no_access_token), blank_client, world_with forgetful_server Map.empty)
   \<and> upload_file toy_digest blank_client ''/tmp/small.bin'' ''/apps/demo/small.bin'' ''overwrite''
         (world_with forgetful_server [''/tmp/small.bin'' \<mapsto> small_file]) =
       (Inl (ValueError msg_no_access_token), blank_client,
        world_with forgetful_server [''/tmp/small.bin'' \<mapsto> small_file])
   \<and> sent (world_with forgetful_server [''/tmp/small.bin'' \<mapsto> small_file]) = []"
proof -
  have h: "\<not> truthy (access_token blank_client)"
    by (simp add: blank_client_def init_def)
  note a = no_token_fails_locally [OF h, where w = "world_with forgetful_server Map.empty"]
  note b = no_token_fails_locally [OF h, where hash = toy_digest
      and w = "world_with forgetful_server [''/tmp/small.bin'' \<mapsto> small_file]"]
  show ?thesis using h a b by simp
qed

text \<open>
  C10. If the reply to the refresh request is a payload without the key
  \<open>access_token\<close>, \<open>refresh_access_token\<close> returns that payload and the client is
  unchanged: access token, refresh token and expiry time are as before.
\<close>

theorem refresh_without_access_token:
  assumes "truthy (refresh_token c)"
    and "\<not> raises (reply_to_next w)"
    and "json_body (reply_to_next w) = Some result"
    and "result ''access_token'' = None"
  shows "refresh_access_token c w = (Inr result, c, after_request (refresh_request c) w)"
  using assms
  by (simp add: refresh_access_token_def session_get_def send_eq response_json_def
      refresh_request_def)

theorem refresh_without_access_token_witness:
  "truthy (refresh_token example_client)
   \<and> \<not> raises (reply_to_next (world_with denying_server Map.empty))
   \<and> json_body (reply_to_next (world_with denying_server Map.empty)) = Some denial_payload
   \<and> denial_payload ''access_token'' = None
   \<and> refresh_access_token example_client (world_with denying_server Map.empty) =
       (Inr denial_payload, example_client,
        after_request (refresh_request example_client) (world_with denying_server Map.empty))"
proof -
  have h1: "truthy (refresh_token example_client)" by simp
  have h2: "\<not> raises (reply_to_next (world_with denying_server Map.empty))"
    by (simp add: reply_to_next_def denying_server_def)
  have h3: "json_body (reply_to_next (world_with denying_server Map.empty)) = Some denial_payload"
    by (simp add: reply_to_next_def denying_server_def)
  have h4: "denial_payload ''access_token'' = None"
    by (simp add: denial_payload_def)
  show ?thesis
    using h1 h2 h3 h4 refresh_without_access_token [OF h1 h2 h3 h4] by simp
qed

lemma refresh_sets_expiry:
  assumes "refresh_access_token c0 w0 = (Inr result, c1, w1)"
    and "result ''access_token'' \<noteq> None"
    and "result ''expires_in'' = Some (JInt E)"
  shows "token_expire_time c1 = clock w1 + E"
  using assms
  by (auto simp: refresh_access_token_def session_get_def send_def Let_def response_json_def
      split: if_splits prod.splits sum.splits option.splits)

lemma refresh_sends_one:
  assumes "truthy (refresh_token c)"
  shows "sent (snd (snd (refresh_access_token c w))) = sent w @ [refresh_request c]"
  using assms
  by (auto simp: refresh_access_token_def session_get_def send_def Let_def response_json_def
      refresh_request_def split: if_splits prod.splits sum.splits option.splits)

lemma refresh_world:
  "disk (snd (snd (refresh_access_token c w))) = disk w
   \<and> (sent (snd (snd (refresh_access_token c w))) = sent w
      \<or> sent (snd (snd (refresh_access_token c w))) = sent w @ [refresh_request c])"
  by (auto simp: refresh_access_token_def session_get_def send_def Let_def response_json_def
      refresh_request_def split: if_splits prod.splits sum.splits option.splits)

lemma check_token_world:
  assumes "check_token c w = (r, c1, w1)"
  shows "disk w1 = disk w \<and> (sent w1 = sent w \<or> sent w1 = sent w @ [refresh_request c])"
proof (cases "token_expire_time c > 0 \<and> clock w \<ge> token_expire_time c - 60 \<and> auto_refresh c
              \<and> truthy (access_token c)")
  case True
  then have "check_token c w = and_then (refresh_access_token c w) (\<lambda>_ c w. (Inr (), c, w))"
    by (simp add: check_token_def)
  then have "w1 = snd (snd (refresh_access_token c w))"
    using assms by (cases "refresh_access_token c w") (auto simp: and_then_def split: sum.splits)
  then show ?thesis using refresh_world [of c w] by simp
next
  case False
  then have "w1 = w" using assms by (auto simp: check_token_def split: if_splits)
  then show ?thesis by simp
qed

text \<open>
  C6, as the code has it. Let a refresh succeed with a payload that reports
  \<open>expires_in = E\<close>, and let the clock read \<open>clock w1\<close> when the refresh stores the
  expiry time. A later \<open>_check_token\<close>, at clock reading \<open>clock w2\<close>:
  \<^item> less than \<open>E - 60\<close> seconds after the refresh, sends nothing and changes nothing;
  \<^item> \<open>E - 60\<close> seconds or more after it, with auto-refresh on, sends exactly one request,
    the refresh request, provided the refresh has left the client with a non-empty
    access token, a non-empty refresh token and a positive expiry time.
  Times are the whole seconds that \<open>int(time.time())\<close> reads.
\<close>

theorem check_after_refresh:
  assumes "refresh_access_token c0 w0 = (Inr result, c1, w1)"
    and "result ''access_token'' \<noteq> None"
    and "result ''expires_in'' = Some (JInt E)"
  shows "(clock w2 - clock w1 < E - 60 \<longrightarrow> snd (check_token c1 w2) = (c1, w2))
    \<and> (clock w2 - clock w1 \<ge> E - 60 \<and> auto_refresh c1 \<and> 0 < clock w1 + E
          \<and> truthy (access_token c1) \<and> truthy (refresh_token c1) \<longrightarrow>
        sent (snd (snd (check_token c1 w2))) = sent w2 @ [refresh_request c1])"
proof -
  have e: "token_expire_time c1 = clock w1 + E"
    using assms by (rule refresh_sets_expiry)
  show ?thesis
  proof (intro conjI impI)
    assume "clock w2 - clock w1 < E - 60"
    then show "snd (check_token c1 w2) = (c1, w2)"
      by (simp add: check_token_def e)
  next
    assume a: "clock w2 - clock w1 \<ge> E - 60 \<and> auto_refresh c1 \<and> 0 < clock w1 + E
          \<and> truthy (access_token c1) \<and> truthy (refresh_token c1)"
    then have "check_token c1 w2 = and_then (refresh_access_token c1 w2) (\<lambda>_ c w. (Inr (), c, w))"
      by (simp add: check_token_def e)
    then show "sent (snd (snd (check_token c1 w2))) = sent w2 @ [refresh_request c1]"
      using a by (simp add: sent_and_then_unit refresh_sends_one)
  qed
qed

lemma example_refresh:
  "refresh_access_token example_client (world_with token_server Map.empty) =
     (Inr token_payload, renewed_client,
      after_request (refresh_request example_client) (world_with token_server Map.empty))"
  by (simp add: refresh_access_token_def session_get_def send_eq response_json_def
      refresh_request_def reply_to_next_def token_server_def token_payload_def
      renewed_client_def after_request_def)

theorem check_after_refresh_witness:
  "refresh_access_token example_client (world_with token_server Map.empty) =
     (Inr token_payload, renewed_client,
      after_request (refresh_request example_client) (world_with token_server Map.empty))
   \<and> token_payload ''access_token'' \<noteq> None
   \<and> token_payload ''expires_in'' = Some (JInt 2592000)
   \<and> snd (check_token renewed_client
        ((world_with token_server Map.empty)\<lparr>clock := 1700000000 + 2592000 - 61\<rparr>)) =
       (renewed_client, (world_with token_server Map.empty)\<lparr>clock := 1700000000 + 2592000 - 61\<rparr>)
   \<and> sent (snd (snd (check_token renewed_client
        ((world_with token_server Map.empty)\<lparr>clock := 1700000000 + 2592000 - 60\<rparr>)))) =
       [refresh_request renewed_client]"
proof -
  let ?w1 = "after_request (refresh_request example_client) (world_with token_server Map.empty)"
  let ?early = "(world_with token_server Map.empty)\<lparr>clock := 1700000000 + 2592000 - 61\<rparr>"
  let ?late = "(world_with token_server Map.empty)\<lparr>clock := 1700000000 + 2592000 - 60\<rparr>"
  have h2: "token_payload ''access_token'' \<noteq> None"
    by (simp add: token_payload_def)
  have h3: "token_payload ''expires_in'' = Some (JInt 2592000)"
    by (simp add: token_payload_def)
  have t: "clock ?w1 = 1700000000"
    by (simp add: after_request_def reply_to_next_def token_server_def)
  have r: "auto_refresh renewed_client \<and> truthy (access_token renewed_client)
      \<and> truthy (refresh_token renewed_client)"
    by (simp add: renewed_client_def)
  have "snd (check_token renewed_client ?early) = (renewed_client, ?early)"
    using check_after_refresh [OF example_refresh h2 h3, of ?early] t by simp
  moreover have "sent (snd (snd (check_token renewed_client ?late))) = [refresh_request renewed_client]"
    using check_after_refresh [OF example_refresh h2 h3, of ?late] t r
    by (simp add: world_with_def)
  ultimately show ?thesis
    using example_refresh h2 h3 by simp
qed

text \<open>
  C6 as stated fails: after a refresh whose payload holds an empty refresh token, a
  check at the boundary \<open>E - 60\<close>, with auto-refresh on, raises the \<open>ValueError\<close> of
  \<open>refresh_access_token\<close> and sends no request.
\<close>

theorem check_after_refresh_counterexample:
  "refresh_access_token example_client (world_with hollow_server Map.empty) =
     (Inr hollow_payload, hollow_client,
      after_request (refresh_request example_client) (world_with hollow_server Map.empty))
   \<and> hollow_payload ''expires_in'' = Some (JInt 3600)
   \<and> auto_refresh hollow_client
   \<and> check_token hollow_client
       ((after_request (refresh_request example_client) (world_with hollow_server Map.empty))
          \<lparr>clock := 1700000000 + 3600 - 60\<rparr>) =
       (Inl (ValueError msg_no_refresh_token), hollow_client,
        (after_request (refresh_request example_client) (world_with hollow_server Map.empty))
          \<lparr>clock := 1700000000 + 3600 - 60\<rparr>)"
  by (simp add: refresh_access_token_def session_get_def send_eq response_json_def
      refresh_request_def reply_to_next_def hollow_server_def hollow_payload_def
      hollow_client_def after_request_def check_token_def and_then_Inl)

subsection \<open>Hashing a file\<close>

lemma md5_read_loop_append: "md5_read_loop h f = h @ f"
proof (induction h f rule: md5_read_loop.induct)
  case (1 h f)
  show ?case
  proof (cases "take 4096 f = []")
    case True
    then have "f = []" by simp
    with True show ?thesis by (subst md5_read_loop.simps) simp
  next
    case False
    have "md5_read_loop h f = md5_read_loop (md5_update h (take 4096 f)) (drop 4096 f)"
      using False by (subst md5_read_loop.simps) (simp add: Let_def)
    also have "\<dots> = md5_update h (take 4096 f) @ drop 4096 f"
      using "1.IH" [OF refl refl False] .
    also have "\<dots> = h @ f" by (simp add: md5_update_def)
    finally show ?thesis .
  qed
qed

lemma calculate_file_md5_eq:
  "disk w file_path = Some content \<Longrightarrow> calculate_file_md5 hash w file_path = Inr (hash content)"
  by (simp add: calculate_file_md5_def md5_hexdigest_def md5_new_def md5_read_loop_append)

text \<open>
  C8. For every file, the hash that \<open>_calculate_file_md5\<close> computes by reading 4096 bytes
  at a time and updating an MD5 object with each read is the MD5 digest of the whole
  content of the file.
\<close>

theorem calculate_file_md5_whole:
  assumes "disk w file_path = Some content"
  shows "calculate_file_md5 hash w file_path = Inr (hash content)"
  using assms by (rule calculate_file_md5_eq)

theorem calculate_file_md5_whole_witness:
  "disk (world_with forgetful_server [''/tmp/big.bin'' \<mapsto> two_chunk_file]) ''/tmp/big.bin'' =
     Some two_chunk_file
   \<and> calculate_file_md5 toy_digest
       (world_with forgetful_server [''/tmp/big.bin'' \<mapsto> two_chunk_file]) ''/tmp/big.bin'' =
     Inr (toy_digest two_chunk_file)"
proof -
  have h: "disk (world_with forgetful_server [''/tmp/big.bin'' \<mapsto> two_chunk_file]) ''/tmp/big.bin'' =
     Some two_chunk_file"
    by simp
  show ?thesis
    using h calculate_file_md5_whole [OF h, of toy_digest] by simp
qed

subsection \<open>The chunk loop\<close>

lemma upload_chunk_eq:
  "upload_chunk c chunk rp uid k w =
     (if raises (reply_to_next w) then Inl RequestException else response_json (reply_to_next w),
      after_request (chunk_request c chunk rp uid k) w)"
  by (simp add: upload_chunk_def session_post_def json_of_send chunk_request_def)

lemma precreate_file_eq:
  "precreate_file c rp n m ondup w =
     (if raises (reply_to_next w) then Inl RequestException else response_json (reply_to_next w),
      after_request (precreate_request c rp n ondup) w)"
  by (simp add: precreate_file_def session_post_def json_of_send precreate_request_def)

lemma create_file_eq:
  "create_file c rp n uid bl ondup w =
     (if raises (reply_to_next w) then Inl RequestException else response_json (reply_to_next w),
      after_request (finalize_request c rp n uid bl ondup) w)"
  by (simp add: create_file_def session_post_def json_of_send finalize_request_def)

lemma chunk_size_pos: "0 < chunk_size"
  by (simp add: chunk_size_def)

lemma upload_chunks_break:
  "f = [] \<Longrightarrow> upload_chunks hash c rp uid f k bl w = (Inr (Break bl), w)"
  by (subst upload_chunks.simps) simp

lemma upload_chunks_nonempty:
  assumes "f \<noteq> []"
  shows "upload_chunks hash c rp uid f k bl w =
     (let w' = after_request (chunk_request c (take chunk_size f) rp uid k) w
      in if raises (reply_to_next w) then (Inl RequestException, w')
         else (case json_body (reply_to_next w) of
                 None \<Rightarrow> (Inl JSONDecodeError, w')
               | Some result \<Rightarrow>
                   if errno_set result then (Inr (Return result), w')
                   else upload_chunks hash c rp uid (drop chunk_size f) (Suc k)
                          (bl @ [hash (take chunk_size f)]) w'))"
  using assms chunk_size_pos
  by (subst upload_chunks.simps)
     (auto simp: Let_def upload_chunk_eq response_json_def split: option.splits)

lemma upload_chunks_return:
  assumes "f \<noteq> []" "\<not> raises (reply_to_next w)" "json_body (reply_to_next w) = Some bad"
    "errno_set bad"
  shows "upload_chunks hash c rp uid f k bl w =
           (Inr (Return bad), after_request (chunk_request c (take chunk_size f) rp uid k) w)"
  using assms by (simp add: upload_chunks_nonempty)

lemma upload_chunks_next:
  assumes "f \<noteq> []" "answered_ok (reply_to_next w)"
  shows "upload_chunks hash c rp uid f k bl w =
           upload_chunks hash c rp uid (drop chunk_size f) (Suc k) (bl @ [hash (take chunk_size f)])
             (after_request (chunk_request c (take chunk_size f) rp uid k) w)"
  using assms
  by (auto simp: upload_chunks_nonempty answered_ok_def Let_def split: option.splits)

lemma upload_chunks_error_at:
  assumes "\<forall>j<i. answered_ok (server w (length (sent w) + j))"
    and "\<not> raises (server w (length (sent w) + i))"
    and "json_body (server w (length (sent w) + i)) = Some bad"
    and "errno_set bad"
    and "i * chunk_size < length f"
  shows "fst (upload_chunks hash c rp uid f k bl w) = Inr (Return bad)
       \<and> sent (snd (upload_chunks hash c rp uid f k bl w)) =
           sent w @ map (\<lambda>j. chunk_request c (take chunk_size (drop (j * chunk_size) f)) rp uid (k + j))
                      [0..<Suc i]"
  using assms
proof (induction i arbitrary: f k bl w)
  case 0
  then have "f \<noteq> []" by auto
  with 0 show ?case
    by (simp add: upload_chunks_return reply_to_next_def)
next
  case (Suc i)
  let ?w' = "after_request (chunk_request c (take chunk_size f) rp uid k) w"
  let ?f' = "drop chunk_size f"
  from Suc.prems(5) have ne: "f \<noteq> []" by auto
  have "(0::nat) < Suc i" by simp
  with Suc.prems(1) have "answered_ok (server w (length (sent w) + 0))" by blast
  then have ok0: "answered_ok (reply_to_next w)"
    by (simp add: reply_to_next_def)
  have step: "upload_chunks hash c rp uid f k bl w =
      upload_chunks hash c rp uid ?f' (Suc k) (bl @ [hash (take chunk_size f)]) ?w'"
    using ne ok0 by (rule upload_chunks_next)
  have p1: "\<forall>j<i. answered_ok (server ?w' (length (sent ?w') + j))"
  proof (intro allI impI)
    fix j assume "j < i"
    then have "Suc j < Suc i" by simp
    with Suc.prems(1) have "answered_ok (server w (length (sent w) + Suc j))" by blast
    then show "answered_ok (server ?w' (length (sent ?w') + j))" by simp
  qed
  have p2: "\<not> raises (server ?w' (length (sent ?w') + i))"
    and p3: "json_body (server ?w' (length (sent ?w') + i)) = Some bad"
    using Suc.prems(2,3) by simp_all
  have p5: "i * chunk_size < length ?f'"
    using Suc.prems(5) by simp
  note IH = Suc.IH [OF p1 p2 p3 Suc.prems(4) p5, of "Suc k" "bl @ [hash (take chunk_size f)]"]
  have m: "map (\<lambda>j. chunk_request c (take chunk_size (drop (j * chunk_size) f)) rp uid (k + j))
             [0..<Suc (Suc i)]
      = chunk_request c (take chunk_size f) rp uid k #
        map (\<lambda>j. chunk_request c (take chunk_size (drop (j * chunk_size) ?f')) rp uid (Suc k + j))
          [0..<Suc i]"
    by (subst upt_rec, simp only: if_True zero_less_Suc list.map, subst map_Suc_upt [symmetric])
       (simp add: add.commute)
  show ?case
    unfolding step m using IH by simp
qed

lemma not_direct [simp]:
  "\<not> is_direct_upload (chunk_request c chunk rp uid k)"
  "\<not> is_direct_upload (precreate_request c rp n ondup)"
  "\<not> is_direct_upload (finalize_request c rp n uid bl ondup)"
  by (simp_all add: is_direct_upload_def chunk_request_def precreate_request_def
      finalize_request_def upload_url_def precreate_url_def create_url_def)

lemma file_chunks_Nil [simp]: "file_chunks [] = []"
  by (subst file_chunks.simps) simp

lemma file_chunks_Cons:
  "f \<noteq> [] \<Longrightarrow> file_chunks f = take chunk_size f # file_chunks (drop chunk_size f)"
  by (subst file_chunks.simps) simp

lemma chunk_requests_simps [simp]:
  "chunk_requests c [] rp uid k = []"
  "chunk_requests c (ch # chs) rp uid k =
     chunk_request c ch rp uid k # chunk_requests c chs rp uid (Suc k)"
  "length (chunk_requests c chs rp uid k) = length chs"
  by (simp_all add: chunk_requests_def)

lemma upload_chunks_stops:
  assumes "f \<noteq> []" "\<not> answered_ok (reply_to_next w)"
  shows "snd (upload_chunks hash c rp uid f k bl w) =
           after_request (chunk_request c (take chunk_size f) rp uid k) w
       \<and> (\<forall>b. fst (upload_chunks hash c rp uid f k bl w) \<noteq> Inr (Break b))"
  using assms
  by (auto simp: upload_chunks_nonempty answered_ok_def Let_def split: option.splits)

lemma upload_chunks_run:
  "sent (snd (upload_chunks hash c rp uid f k bl w)) =
     sent w @ take (Suc (accepted_from (server w) (length (sent w)) (length (file_chunks f))))
                (chunk_requests c (file_chunks f) rp uid k)
   \<and> (accepted_from (server w) (length (sent w)) (length (file_chunks f)) = length (file_chunks f)
        \<longrightarrow> fst (upload_chunks hash c rp uid f k bl w) = Inr (Break (bl @ map hash (file_chunks f))))
   \<and> (accepted_from (server w) (length (sent w)) (length (file_chunks f)) \<noteq> length (file_chunks f)
        \<longrightarrow> (\<forall>b. fst (upload_chunks hash c rp uid f k bl w) \<noteq> Inr (Break b)))"
proof (induction "length f" arbitrary: f k bl w rule: less_induct)
  case less
  show ?case
  proof (cases "f = []")
    case True
    then show ?thesis by (simp add: upload_chunks_break)
  next
    case False
    let ?ch = "take chunk_size f"
    let ?f' = "drop chunk_size f"
    let ?w' = "after_request (chunk_request c ?ch rp uid k) w"
    have fc: "file_chunks f = ?ch # file_chunks ?f'"
      using False by (rule file_chunks_Cons)
    show ?thesis
    proof (cases "answered_ok (reply_to_next w)")
      case True
      have shorter: "length ?f' < length f"
        using False chunk_size_pos by simp
      note IH = less [OF shorter, of "Suc k" "bl @ [hash ?ch]" ?w']
      have step: "upload_chunks hash c rp uid f k bl w =
          upload_chunks hash c rp uid ?f' (Suc k) (bl @ [hash ?ch]) ?w'"
        using False True by (rule upload_chunks_next)
      have ok: "answered_ok (server w (length (sent w)))"
        using True by (simp add: reply_to_next_def)
      show ?thesis
        unfolding step fc using IH ok by simp
    next
      case bad: False
      have no: "\<not> answered_ok (server w (length (sent w)))"
        using bad by (simp add: reply_to_next_def)
      show ?thesis
        using upload_chunks_stops [OF False bad, of hash c rp uid k bl] no
        by (simp add: fc)
    qed
  qed
qed

lemma accepted_from_le: "accepted_from srv k n \<le> n"
  by (induction n arbitrary: k) auto

lemma accepted_from_all:
  "\<forall>j<n. answered_ok (srv (k + j)) \<Longrightarrow> accepted_from srv k n = n"
proof (induction n arbitrary: k)
  case 0
  show ?case by simp
next
  case (Suc n)
  have "(0::nat) < Suc n" by simp
  with Suc.prems have "answered_ok (srv (k + 0))" by blast
  then have first: "answered_ok (srv k)" by simp
  have "\<forall>j<n. answered_ok (srv (Suc k + j))"
  proof (intro allI impI)
    fix j assume "j < n"
    then have "Suc j < Suc n" by simp
    with Suc.prems have "answered_ok (srv (k + Suc j))" by blast
    then show "answered_ok (srv (Suc k + j))" by simp
  qed
  then have "accepted_from srv (Suc k) n = n" by (rule Suc.IH)
  with first show ?case by simp
qed

lemma requests_sent_all:
  assumes "precreate_granted (srv k)"
    and "\<forall>j<n. answered_ok (srv (k + 1 + j))"
  shows "requests_sent srv k n = n + 2"
proof -
  from assms(2) have "\<forall>j<n. answered_ok (srv (Suc k + j))" by simp
  then have "accepted_from srv (Suc k) n = n" by (rule accepted_from_all)
  with assms(1) show ?thesis by (simp add: requests_sent_def)
qed

lemma length_chunked_requests:
  "length (chunked_requests hash c content rp uid ondup) = length (file_chunks content) + 2"
  by (simp add: chunked_requests_def)

lemma chunked_requests_not_direct:
  "\<not> list_ex is_direct_upload (chunked_requests hash c content rp uid ondup)"
  by (auto simp: chunked_requests_def chunk_requests_def list_ex_iff)

subsection \<open>Chunked upload\<close>

lemma upload_large_file_started:
  assumes "disk w local_path = Some content"
    and "\<not> raises (reply_to_next w)"
    and "json_body (reply_to_next w) = Some pre"
    and "\<not> errno_set pre"
    and "pre ''uploadid'' = Some uid"
    and "truthy uid"
  shows "upload_large_file hash c local_path remote_path ondup w =
     (case upload_chunks hash c remote_path uid content 0 []
             (after_request (precreate_request c remote_path (length content) ondup) w) of
        (Inl e, w) \<Rightarrow> (Inl e, w)
      | (Inr (Return result), w) \<Rightarrow> (Inr result, w)
      | (Inr (Break block_list), w) \<Rightarrow>
          create_file c remote_path (length content) uid block_list ondup w)"
  using assms
  by (simp add: upload_large_file_def getsize_def calculate_file_md5_def precreate_file_eq
      response_json_def)

lemma upload_large_file_no_id:
  assumes "disk w local_path = Some content"
    and "\<not> raises (reply_to_next w)"
    and "json_body (reply_to_next w) = Some pre"
    and "\<not> errno_set pre"
    and "\<not> truthy (case pre ''uploadid'' of None \<Rightarrow> JStr [] | Some v \<Rightarrow> v)"
  shows "upload_large_file hash c local_path remote_path ondup w =
           (Inr [''errno'' \<mapsto> JInt (- 1), ''errmsg'' \<mapsto> JStr msg_no_upload_id],
            after_request (precreate_request c remote_path (length content) ondup) w)"
  using assms
  by (simp add: upload_large_file_def getsize_def calculate_file_md5_def precreate_file_eq
      response_json_def)

lemma example_precreate [simp]:
  "\<not> errno_set precreate_payload"
  "precreate_payload ''uploadid'' = Some (JStr ''N1-MTAuMjI4'')"
  "\<not> errno_set success_payload"
  "success_payload ''uploadid'' = None"
  "errno_set failure_payload"
  by (simp_all add: errno_set_def precreate_payload_def success_payload_def failure_payload_def)

text \<open>
  C2. In a chunked upload, let the chunks before index \<open>i\<close> be accepted and let the reply
  to the chunk at index \<open>i\<close> be a payload with a non-zero \<open>errno\<close>. Then the upload
  returns that payload, and the requests it has sent are the precreate request and the
  chunks \<open>0, ..., i\<close>, in this order, and nothing else: no chunk with a higher index,
  and no finalize request.
\<close>

theorem chunk_error_aborts:
  assumes "disk w local_path = Some content"
    and "\<not> raises (reply_to_next w)"
    and "json_body (reply_to_next w) = Some pre"
    and "\<not> errno_set pre"
    and "pre ''uploadid'' = Some uid"
    and "truthy uid"
    and "\<forall>j<i. answered_ok (server w (length (sent w) + 1 + j))"
    and "\<not> raises (server w (length (sent w) + 1 + i))"
    and "json_body (server w (length (sent w) + 1 + i)) = Some bad"
    and "errno_set bad"
    and "i * chunk_size < length content"
  shows "fst (upload_large_file hash c local_path remote_path ondup w) = Inr bad
     \<and> sent (snd (upload_large_file hash c local_path remote_path ondup w)) =
         sent w @ precreate_request c remote_path (length content) ondup #
           map (\<lambda>j. chunk_request c (take chunk_size (drop (j * chunk_size) content)) remote_path uid j)
             [0..<Suc i]"
proof -
  let ?w1 = "after_request (precreate_request c remote_path (length content) ondup) w"
  let ?run = "upload_chunks hash c remote_path uid content 0 [] ?w1"
  have oks: "\<forall>j<i. answered_ok (server ?w1 (length (sent ?w1) + j))"
    using assms(7) by simp
  have b1: "\<not> raises (server ?w1 (length (sent ?w1) + i))"
    and b2: "json_body (server ?w1 (length (sent ?w1) + i)) = Some bad"
    using assms(8,9) by simp_all
  note loop = upload_chunks_error_at [OF oks b1 b2 assms(10,11), of hash c remote_path uid 0 "[]"]
  have "upload_large_file hash c local_path remote_path ondup w = (Inr bad, snd ?run)"
    unfolding upload_large_file_started [OF assms(1-6)]
    using loop by (cases ?run) simp
  then show ?thesis using loop by simp
qed

theorem chunk_error_aborts_witness:
  "disk (world_with failing_server [''/tmp/huge.bin'' \<mapsto> three_chunk_file]) ''/tmp/huge.bin'' =
     Some three_chunk_file
   \<and> 1 * chunk_size < length three_chunk_file
   \<and> answered_ok (failing_server 1)
   \<and> json_body (failing_server 2) = Some failure_payload
   \<and> errno_set failure_payload
   \<and> fst (upload_large_file toy_digest example_client ''/tmp/huge.bin'' ''/apps/demo/huge.bin''
            ''overwrite'' (world_with failing_server [''/tmp/huge.bin'' \<mapsto> three_chunk_file])) =
       Inr failure_payload
   \<and> sent (snd (upload_large_file toy_digest example_client ''/tmp/huge.bin''
            ''/apps/demo/huge.bin'' ''overwrite''
            (world_with failing_server [''/tmp/huge.bin'' \<mapsto> three_chunk_file]))) =
       [precreate_request example_client ''/apps/demo/huge.bin'' 8388609 ''overwrite'',
        chunk_request example_client (take chunk_size three_chunk_file)
          ''/apps/demo/huge.bin'' (JStr ''N1-MTAuMjI4'') 0,
        chunk_request example_client (take chunk_size (drop chunk_size three_chunk_file))
          ''/apps/demo/huge.bin'' (JStr ''N1-MTAuMjI4'') 1]"
proof -
  let ?w = "world_with failing_server [''/tmp/huge.bin'' \<mapsto> three_chunk_file]"
  have h1: "disk ?w ''/tmp/huge.bin'' = Some three_chunk_file" by simp
  have h2: "\<not> raises (reply_to_next ?w)"
    and h3: "json_body (reply_to_next ?w) = Some precreate_payload"
    by (simp_all add: reply_to_next_def failing_server_def)
  have h4: "\<not> errno_set precreate_payload"
    and h5: "precreate_payload ''uploadid'' = Some (JStr ''N1-MTAuMjI4'')"
    and h6: "truthy (JStr ''N1-MTAuMjI4'')"
    by simp_all
  have ok: "answered_ok (failing_server 1)"
    by (simp add: answered_ok_def failing_server_def)
  then have h7: "\<forall>j<1. answered_ok (server ?w (length (sent ?w) + 1 + j))"
    by simp
  have h8: "\<not> raises (server ?w (length (sent ?w) + 1 + 1))"
    and h9: "json_body (server ?w (length (sent ?w) + 1 + 1)) = Some failure_payload"
    by (simp_all add: failing_server_def)
  have h10: "errno_set failure_payload" by simp
  have h11: "1 * chunk_size < length three_chunk_file"
    by (simp add: chunk_size_def)
  note run = chunk_error_aborts [OF h1 h2 h3 h4 h5 h6 h7 h8 h9 h10 h11,
      of toy_digest example_client "''/apps/demo/huge.bin''" "''overwrite''"]
  have l: "[0..<Suc 1] = [0, 1]" by (simp add: upt_rec)
  show ?thesis
    using h1 h11 ok h9 h10 run unfolding l by (simp add: failing_server_def)
qed

lemma drop_all_but_one:
  "length (content :: bytes) = 4 * 1024 * 1024 + 1 \<Longrightarrow>
     content \<noteq> [] \<and> drop chunk_size content \<noteq> []
     \<and> take chunk_size (drop chunk_size content) = drop chunk_size content
     \<and> drop chunk_size (drop chunk_size content) = []"
  by (auto simp: chunk_size_def)

text \<open>
  C3. For a chunked upload of a file of exactly \<open>4 * 1024 * 1024 + 1\<close> bytes whose
  precreate and chunk requests are accepted, the requests sent are: the precreate
  request, the chunk with index 0 carrying the first 4194304 bytes, the chunk with
  index 1 carrying the one remaining byte, and the finalize request, whose block list
  holds exactly the two MD5 digests of these chunks, in the order they were read.
\<close>

theorem two_chunks_for_4MiB_plus_1:
  assumes "disk w local_path = Some content"
    and "length content = 4 * 1024 * 1024 + 1"
    and "\<not> raises (reply_to_next w)"
    and "json_body (reply_to_next w) = Some pre"
    and "\<not> errno_set pre"
    and "pre ''uploadid'' = Some uid"
    and "truthy uid"
    and "answered_ok (server w (length (sent w) + 1))"
    and "answered_ok (server w (length (sent w) + 2))"
  shows "sent (snd (upload_large_file hash c local_path remote_path ondup w)) =
           sent w @
           [precreate_request c remote_path 4194305 ondup,
            chunk_request c (take 4194304 content) remote_path uid 0,
            chunk_request c (drop 4194304 content) remote_path uid 1,
            finalize_request c remote_path 4194305 uid
              [hash (take 4194304 content), hash (drop 4194304 content)] ondup]
       \<and> length (take 4194304 content) = 4194304
       \<and> length (drop 4194304 content) = 1"
proof -
  let ?w1 = "after_request (precreate_request c remote_path (length content) ondup) w"
  let ?c0 = "take chunk_size content"
  let ?f1 = "drop chunk_size content"
  let ?w2 = "after_request (chunk_request c ?c0 remote_path uid 0) ?w1"
  let ?w3 = "after_request (chunk_request c ?f1 remote_path uid (Suc 0)) ?w2"
  note d = drop_all_but_one [OF assms(2)]
  have ok1: "answered_ok (reply_to_next ?w1)"
    using assms(8) by (simp add: reply_to_next_def)
  have ok2: "answered_ok (reply_to_next ?w2)"
    using assms(9) by (simp add: reply_to_next_def)
  have "upload_chunks hash c remote_path uid content 0 [] ?w1 =
        upload_chunks hash c remote_path uid ?f1 (Suc 0) [hash ?c0] ?w2"
    using upload_chunks_next [of content ?w1 hash c remote_path uid 0 "[]"] d ok1 by simp
  also have "\<dots> = upload_chunks hash c remote_path uid [] (Suc (Suc 0)) [hash ?c0, hash ?f1] ?w3"
    using upload_chunks_next [of ?f1 ?w2 hash c remote_path uid "Suc 0" "[hash ?c0]"] d ok2 by simp
  also have "\<dots> = (Inr (Break [hash ?c0, hash ?f1]), ?w3)"
    by (simp add: upload_chunks_break)
  finally have run: "upload_chunks hash c remote_path uid content 0 [] ?w1 =
      (Inr (Break [hash ?c0, hash ?f1]), ?w3)" .
  have "sent (snd (upload_large_file hash c local_path remote_path ondup w)) =
      sent ?w3 @ [finalize_request c remote_path (length content) uid [hash ?c0, hash ?f1] ondup]"
    unfolding upload_large_file_started [OF assms(1) assms(3-7)] run
    by (simp add: create_file_eq)
  then show ?thesis
    using assms(2) by (simp add: chunk_size_def)
qed

theorem two_chunks_for_4MiB_plus_1_witness:
  "disk (world_with accepting_server [''/tmp/big.bin'' \<mapsto> two_chunk_file]) ''/tmp/big.bin'' =
     Some two_chunk_file
   \<and> length two_chunk_file = 4 * 1024 * 1024 + 1
   \<and> json_body (accepting_server 0) = Some precreate_payload
   \<and> answered_ok (accepting_server 1)
   \<and> answered_ok (accepting_server 2)
   \<and> sent (snd (upload_large_file toy_digest example_client ''/tmp/big.bin''
            ''/apps/demo/big.bin'' ''overwrite''
            (world_with accepting_server [''/tmp/big.bin'' \<mapsto> two_chunk_file]))) =
       [precreate_request example_client ''/apps/demo/big.bin'' 4194305 ''overwrite'',
        chunk_request example_client (take 4194304 two_chunk_file)
          ''/apps/demo/big.bin'' (JStr ''N1-MTAuMjI4'') 0,
        chunk_request example_client (drop 4194304 two_chunk_file)
          ''/apps/demo/big.bin'' (JStr ''N1-MTAuMjI4'') 1,
        finalize_request example_client ''/apps/demo/big.bin'' 4194305 (JStr ''N1-MTAuMjI4'')
          [toy_digest (take 4194304 two_chunk_file), toy_digest (drop 4194304 two_chunk_file)]
          ''overwrite'']
   \<and> length (take 4194304 two_chunk_file) = 4194304
   \<and> length (drop 4194304 two_chunk_file) = 1"
proof -
  let ?w = "world_with accepting_server [''/tmp/big.bin'' \<mapsto> two_chunk_file]"
  have h1: "disk ?w ''/tmp/big.bin'' = Some two_chunk_file" by simp
  have h2: "length two_chunk_file = 4 * 1024 * 1024 + 1" by simp
  have h3: "\<not> raises (reply_to_next ?w)"
    and h4: "json_body (reply_to_next ?w) = Some precreate_payload"
    by (simp_all add: reply_to_next_def accepting_server_def)
  have h5: "\<not> errno_set precreate_payload"
    and h6: "precreate_payload ''uploadid'' = Some (JStr ''N1-MTAuMjI4'')"
    and h7: "truthy (JStr ''N1-MTAuMjI4'')"
    by simp_all
  have ok1: "answered_ok (accepting_server 1)" and ok2: "answered_ok (accepting_server 2)"
    by (simp_all add: answered_ok_def accepting_server_def)
  have h8: "answered_ok (server ?w (length (sent ?w) + 1))"
    and h9: "answered_ok (server ?w (length (sent ?w) + 2))"
    by (simp_all add: answered_ok_def accepting_server_def)
  have p: "json_body (accepting_server 0) = Some precreate_payload"
    by (simp add: accepting_server_def)
  note run = two_chunks_for_4MiB_plus_1 [OF h1 h2 h3 h4 h5 h6 h7 h8 h9,
      of toy_digest example_client "''/apps/demo/big.bin''" "''overwrite''"]
  show ?thesis
    using h1 p ok1 ok2 run by simp
qed

text \<open>
  C4, as the code has it. If the precreate reply is a payload that reports no error and
  holds no \<open>uploadid\<close>, or an empty one, the chunked upload raises nothing: it returns
  the payload \<open>{"errno": -1, "errmsg": ...}\<close> that it builds itself, after the
  precreate request and without any chunk or finalize request.
\<close>

theorem missing_upload_id_payload:
  assumes "disk w local_path = Some content"
    and "\<not> raises (reply_to_next w)"
    and "json_body (reply_to_next w) = Some pre"
    and "\<not> errno_set pre"
    and "\<not> truthy (case pre ''uploadid'' of None \<Rightarrow> JStr [] | Some v \<Rightarrow> v)"
  shows "upload_large_file hash c local_path remote_path ondup w =
           (Inr [''errno'' \<mapsto> JInt (- 1), ''errmsg'' \<mapsto> JStr msg_no_upload_id],
            after_request (precreate_request c remote_path (length content) ondup) w)"
  using assms by (rule upload_large_file_no_id)

theorem missing_upload_id_payload_witness:
  "disk (world_with forgetful_server [''/tmp/big.bin'' \<mapsto> two_chunk_file]) ''/tmp/big.bin'' =
     Some two_chunk_file
   \<and> json_body (forgetful_server 0) = Some success_payload
   \<and> \<not> errno_set success_payload
   \<and> \<not> truthy (case success_payload ''uploadid'' of None \<Rightarrow> JStr [] | Some v \<Rightarrow> v)
   \<and> upload_large_file toy_digest example_client ''/tmp/big.bin'' ''/apps/demo/big.bin''
        ''overwrite'' (world_with forgetful_server [''/tmp/big.bin'' \<mapsto> two_chunk_file]) =
       (Inr [''errno'' \<mapsto> JInt (- 1), ''errmsg'' \<mapsto> JStr msg_no_upload_id],
        after_request
          (precreate_request example_client ''/apps/demo/big.bin'' 4194305 ''overwrite'')
          (world_with forgetful_server [''/tmp/big.bin'' \<mapsto> two_chunk_file]))"
proof -
  let ?w = "world_with forgetful_server [''/tmp/big.bin'' \<mapsto> two_chunk_file]"
  have h1: "disk ?w ''/tmp/big.bin'' = Some two_chunk_file" by simp
  have h2: "\<not> raises (reply_to_next ?w)"
    and h3: "json_body (reply_to_next ?w) = Some success_payload"
    by (simp_all add: reply_to_next_def forgetful_server_def)
  have h4: "\<not> errno_set success_payload" by simp
  have h5: "\<not> truthy (case success_payload ''uploadid'' of None \<Rightarrow> JStr [] | Some v \<Rightarrow> v)"
    by simp
  have p: "json_body (forgetful_server 0) = Some success_payload"
    by (simp add: forgetful_server_def)
  note run = missing_upload_id_payload [OF h1 h2 h3 h4 h5,
      of toy_digest example_client "''/apps/demo/big.bin''" "''overwrite''"]
  show ?thesis
    using h1 p h4 h5 run by simp
qed

text \<open>
  C4 as stated fails: with a precreate reply \<open>{"errno": 0}\<close> the upload of a file of
  4194305 bytes ends normally, with a payload as its result, and not with an exception.
\<close>

theorem missing_upload_id_counterexample:
  "json_body (forgetful_server 0) = Some success_payload
   \<and> success_payload ''errno'' = Some (JInt 0)
   \<and> success_payload ''uploadid'' = None
   \<and> fst (upload_file toy_digest example_client ''/tmp/big.bin'' ''/apps/demo/big.bin''
        ''overwrite'' (world_with forgetful_server [''/tmp/big.bin'' \<mapsto> two_chunk_file])) =
       Inr [''errno'' \<mapsto> JInt (- 1), ''errmsg'' \<mapsto> JStr msg_no_upload_id]"
proof -
  let ?w = "world_with forgetful_server [''/tmp/big.bin'' \<mapsto> two_chunk_file]"
  have h1: "disk ?w ''/tmp/big.bin'' = Some two_chunk_file" by simp
  have h2: "\<not> raises (reply_to_next ?w)"
    and h3: "json_body (reply_to_next ?w) = Some success_payload"
    by (simp_all add: reply_to_next_def forgetful_server_def)
  have h5: "\<not> truthy (case success_payload ''uploadid'' of None \<Rightarrow> JStr [] | Some v \<Rightarrow> v)"
    by simp
  have large: "fst (upload_large_file toy_digest example_client ''/tmp/big.bin''
      ''/apps/demo/big.bin'' ''overwrite'' ?w) =
      Inr [''errno'' \<mapsto> JInt (- 1), ''errmsg'' \<mapsto> JStr msg_no_upload_id]"
    using upload_large_file_no_id [OF h1 h2 h3 _ h5,
        of toy_digest example_client "''/apps/demo/big.bin''" "''overwrite''"]
    by simp
  have ct: "check_token example_client ?w = (Inr (), example_client, ?w)"
    by (simp add: check_token_def)
  have "fst (upload_file toy_digest example_client ''/tmp/big.bin'' ''/apps/demo/big.bin''
        ''overwrite'' ?w) =
      fst (upload_large_file toy_digest example_client ''/tmp/big.bin''
        ''/apps/demo/big.bin'' ''overwrite'' ?w)"
    by (simp add: upload_file_def ct and_then_Inr getsize_def case_prod_beta)
  with large show ?thesis
    by (simp add: forgetful_server_def success_payload_def)
qed

subsection \<open>Choosing the upload path\<close>

lemma upload_large_file_refused:
  assumes "disk w local_path = Some content"
    and "\<not> precreate_granted (reply_to_next w)"
  shows "snd (upload_large_file hash c local_path remote_path ondup w) =
           after_request (precreate_request c remote_path (length content) ondup) w"
  using assms
  by (auto simp: upload_large_file_def getsize_def calculate_file_md5_def precreate_file_eq
      response_json_def precreate_granted_def answered_ok_def granted_upload_id_def
      split: option.splits)

lemma upload_large_file_granted:
  assumes "disk w local_path = Some content"
    and "precreate_granted (reply_to_next w)"
  shows "upload_large_file hash c local_path remote_path ondup w =
     (case upload_chunks hash c remote_path (granted_upload_id (reply_to_next w)) content 0 []
             (after_request (precreate_request c remote_path (length content) ondup) w) of
        (Inl e, w') \<Rightarrow> (Inl e, w')
      | (Inr (Return result), w') \<Rightarrow> (Inr result, w')
      | (Inr (Break block_list), w') \<Rightarrow>
          create_file c remote_path (length content) (granted_upload_id (reply_to_next w))
            block_list ondup w')"
proof -
  from assms(2) obtain pre where nr: "\<not> raises (reply_to_next w)"
    and j: "json_body (reply_to_next w) = Some pre"
    and ne: "\<not> errno_set pre"
    and t: "truthy (granted_upload_id (reply_to_next w))"
    by (auto simp: precreate_granted_def answered_ok_def split: option.splits)
  from j t have u: "pre ''uploadid'' = Some (granted_upload_id (reply_to_next w))"
    by (auto simp: granted_upload_id_def split: option.splits)
  show ?thesis
    by (rule upload_large_file_started [OF assms(1) nr j ne u t])
qed

lemma upload_large_file_requests:
  assumes "disk w local_path = Some content"
  shows "sent (snd (upload_large_file hash c local_path remote_path ondup w)) =
           sent w @ take (requests_sent (server w) (length (sent w)) (length (file_chunks content)))
                      (chunked_requests hash c content remote_path
                         (granted_upload_id (reply_to_next w)) ondup)"
proof (cases "precreate_granted (reply_to_next w)")
  case False
  then show ?thesis
    using upload_large_file_refused [OF assms False, of hash c remote_path ondup]
    by (simp add: requests_sent_def reply_to_next_def chunked_requests_def)
next
  case True
  let ?uid = "granted_upload_id (reply_to_next w)"
  let ?p = "precreate_request c remote_path (length content) ondup"
  let ?w1 = "after_request ?p w"
  let ?n = "length (file_chunks content)"
  let ?a = "accepted_from (server w) (Suc (length (sent w))) ?n"
  let ?run = "upload_chunks hash c remote_path ?uid content 0 [] ?w1"
  let ?qs = "chunk_requests c (file_chunks content) remote_path ?uid 0"
  note loop = upload_chunks_run [of hash c remote_path ?uid content 0 "[]" ?w1]
  have s: "sent (snd ?run) = sent w @ ?p # take (Suc ?a) ?qs"
    using loop by simp
  have n: "requests_sent (server w) (length (sent w)) ?n = ?a + 2"
    using True by (simp add: requests_sent_def reply_to_next_def)
  obtain r w2 where e: "?run = (r, w2)" by (cases ?run)
  show ?thesis
  proof (cases "?a = ?n")
    case all: True
    then have "r = Inr (Break (map hash (file_chunks content)))"
      using loop e by simp
    then have "sent (snd (upload_large_file hash c local_path remote_path ondup w)) =
        sent w2 @ [finalize_request c remote_path (length content) ?uid
                     (map hash (file_chunks content)) ondup]"
      unfolding upload_large_file_granted [OF assms True] e by (simp add: create_file_eq)
    then show ?thesis
      using s e all n by (simp add: chunked_requests_def)
  next
    case some: False
    then have nb: "\<forall>b. r \<noteq> Inr (Break b)"
      using loop e by simp
    have "snd (upload_large_file hash c local_path remote_path ondup w) = w2"
      unfolding upload_large_file_granted [OF assms True] e
      using nb by (cases r) (auto split: loop_exit.splits)
    moreover have "?a \<le> ?n"
      by (rule accepted_from_le)
    ultimately show ?thesis
      using s e some n by (simp add: chunked_requests_def)
  qed
qed

lemma upload_small_file_sent:
  assumes "disk w local_path = Some content"
  shows "sent (snd (upload_small_file c local_path remote_path ondup w)) =
           sent w @ [direct_upload_request c content remote_path ondup]"
  using assms
  by (simp add: upload_small_file_def session_post_def json_of_send direct_upload_request_def)

lemma upload_file_small:
  assumes "check_token c w = (Inr (), c1, w1)"
    and "disk w local_path = Some content"
    and "length content \<le> 4194304"
  shows "sent (snd (snd (upload_file hash c local_path remote_path ondup w))) =
           sent w1 @ [direct_upload_request c1 content remote_path ondup]"
proof -
  have d: "disk w1 local_path = Some content"
    using check_token_world [OF assms(1)] assms(2) by simp
  show ?thesis
    using upload_small_file_sent [OF d, of c1 remote_path ondup] assms(3)
    by (simp add: upload_file_def and_then_def assms(1) d getsize_def case_prod_beta)
qed

lemma file_chunks_two:
  assumes "length (content :: bytes) = 4 * 1024 * 1024 + 1"
  shows "file_chunks content = [take chunk_size content, drop chunk_size content]"
proof -
  note d = drop_all_but_one [OF assms]
  have "file_chunks content = take chunk_size content # file_chunks (drop chunk_size content)"
    using d by (simp add: file_chunks_Cons)
  also have "file_chunks (drop chunk_size content) =
      take chunk_size (drop chunk_size content) # file_chunks (drop chunk_size (drop chunk_size content))"
    using d by (simp add: file_chunks_Cons)
  finally show ?thesis using d by simp
qed

lemma upload_file_large:
  assumes "check_token c w = (Inr (), c1, w1)"
    and "disk w local_path = Some content"
    and "length content > 4194304"
  shows "sent (snd (snd (upload_file hash c local_path remote_path ondup w))) =
           sent w1 @ take (requests_sent (server w1) (length (sent w1)) (length (file_chunks content)))
                       (chunked_requests hash c1 content remote_path
                          (granted_upload_id (reply_to_next w1)) ondup)"
proof -
  have d: "disk w1 local_path = Some content"
    using check_token_world [OF assms(1)] assms(2) by simp
  show ?thesis
    using upload_large_file_requests [OF d, of hash c1 remote_path ondup] assms(3)
    by (simp add: upload_file_def and_then_def assms(1) d getsize_def case_prod_beta)
qed

text \<open>
  C1, as the code has it. For every upload call on an existing regular file that passes
  the token check, the requests sent after the token check are
  \<^item> exactly one request, the direct upload carrying the whole file, when the size is at
    most 4194304 bytes (so a file of 100 bytes causes one upload request and no
    precreate, chunk or finalize request);
  \<^item> the requests of the chunked path when the size is greater: the precreate request,
    the chunk uploads in file order and the finalize request, as far as the vendor
    accepts them (each request is sent once those before it have been accepted), and
    all of them when the vendor accepts them all. None of them is a direct upload.
  The token check itself sends nothing, or the one refresh request when the token is
  due for refresh.
\<close>

theorem upload_path_by_size:
  assumes "check_token c w = (Inr (), c1, w1)"
    and "disk w local_path = Some content"
  shows "(length content \<le> 4194304 \<longrightarrow>
            sent (snd (snd (upload_file hash c local_path remote_path ondup w))) =
              sent w1 @ [direct_upload_request c1 content remote_path ondup])
       \<and> (length content > 4194304 \<longrightarrow>
            sent (snd (snd (upload_file hash c local_path remote_path ondup w))) =
              sent w1 @
              take (requests_sent (server w1) (length (sent w1)) (length (file_chunks content)))
                (chunked_requests hash c1 content remote_path
                   (granted_upload_id (reply_to_next w1)) ondup))
       \<and> (length content > 4194304 \<and> precreate_granted (reply_to_next w1)
            \<and> (\<forall>j<length (file_chunks content).
                  answered_ok (server w1 (length (sent w1) + 1 + j))) \<longrightarrow>
            sent (snd (snd (upload_file hash c local_path remote_path ondup w))) =
              sent w1 @
              chunked_requests hash c1 content remote_path
                (granted_upload_id (reply_to_next w1)) ondup)
       \<and> \<not> list_ex is_direct_upload
            (chunked_requests hash c1 content remote_path
               (granted_upload_id (reply_to_next w1)) ondup)
       \<and> (sent w1 = sent w \<or> sent w1 = sent w @ [refresh_request c])"
proof -
  let ?full = "chunked_requests hash c1 content remote_path
      (granted_upload_id (reply_to_next w1)) ondup"
  have whole: "length content > 4194304 \<and> precreate_granted (reply_to_next w1)
      \<and> (\<forall>j<length (file_chunks content). answered_ok (server w1 (length (sent w1) + 1 + j)))
      \<Longrightarrow> sent (snd (snd (upload_file hash c local_path remote_path ondup w))) = sent w1 @ ?full"
  proof -
    assume a: "length content > 4194304 \<and> precreate_granted (reply_to_next w1)
      \<and> (\<forall>j<length (file_chunks content). answered_ok (server w1 (length (sent w1) + 1 + j)))"
    then have "requests_sent (server w1) (length (sent w1)) (length (file_chunks content)) =
        length (file_chunks content) + 2"
      by (intro requests_sent_all) (simp_all add: reply_to_next_def)
    then have "take (requests_sent (server w1) (length (sent w1)) (length (file_chunks content)))
        ?full = ?full"
      by (simp add: length_chunked_requests)
    with upload_file_large [OF assms, of hash remote_path ondup] a show ?thesis by simp
  qed
  show ?thesis
    using upload_file_small [OF assms] upload_file_large [OF assms] whole
      chunked_requests_not_direct check_token_world [OF assms(1)]
    by blast
qed

lemma example_granted [simp]: "precreate_granted (json_reply precreate_payload)"
  by (simp add: precreate_granted_def answered_ok_def granted_upload_id_def)

lemma example_granted_id [simp]:
  "granted_upload_id (json_reply precreate_payload) = JStr ''N1-MTAuMjI4''"
  by (simp add: granted_upload_id_def)

theorem upload_path_by_size_witness:
  "check_token example_client (world_with forgetful_server [''/tmp/small.bin'' \<mapsto> small_file]) =
     (Inr (), example_client, world_with forgetful_server [''/tmp/small.bin'' \<mapsto> small_file])
   \<and> length small_file = 100
   \<and> sent (snd (snd (upload_file toy_digest example_client ''/tmp/small.bin''
        ''/apps/demo/small.bin'' ''overwrite''
        (world_with forgetful_server [''/tmp/small.bin'' \<mapsto> small_file])))) =
       [direct_upload_request example_client small_file ''/apps/demo/small.bin'' ''overwrite'']
   \<and> check_token example_client (world_with accepting_server [''/tmp/big.bin'' \<mapsto> two_chunk_file]) =
     (Inr (), example_client, world_with accepting_server [''/tmp/big.bin'' \<mapsto> two_chunk_file])
   \<and> length two_chunk_file = 4194305
   \<and> precreate_granted (accepting_server 0)
   \<and> requests_sent accepting_server 0 (length (file_chunks two_chunk_file)) = 4
   \<and> sent (snd (snd (upload_file toy_digest example_client ''/tmp/big.bin''
        ''/apps/demo/big.bin'' ''overwrite''
        (world_with accepting_server [''/tmp/big.bin'' \<mapsto> two_chunk_file])))) =
       [precreate_request example_client ''/apps/demo/big.bin'' 4194305 ''overwrite'',
        chunk_request example_client (take chunk_size two_chunk_file)
          ''/apps/demo/big.bin'' (JStr ''N1-MTAuMjI4'') 0,
        chunk_request example_client (drop chunk_size two_chunk_file)
          ''/apps/demo/big.bin'' (JStr ''N1-MTAuMjI4'') 1,
        finalize_request example_client ''/apps/demo/big.bin'' 4194305 (JStr ''N1-MTAuMjI4'')
          [toy_digest (take chunk_size two_chunk_file), toy_digest (drop chunk_size two_chunk_file)]
          ''overwrite'']"
proof -
  let ?ws = "world_with forgetful_server [''/tmp/small.bin'' \<mapsto> small_file]"
  let ?wb = "world_with accepting_server [''/tmp/big.bin'' \<mapsto> two_chunk_file]"
  have s1: "check_token example_client ?ws = (Inr (), example_client, ?ws)"
    by (simp add: check_token_def)
  have s2: "disk ?ws ''/tmp/small.bin'' = Some small_file" by simp
  have b1: "check_token example_client ?wb = (Inr (), example_client, ?wb)"
    by (simp add: check_token_def)
  have b2: "disk ?wb ''/tmp/big.bin'' = Some two_chunk_file" by simp
  have fc: "file_chunks two_chunk_file =
      [take chunk_size two_chunk_file, drop chunk_size two_chunk_file]"
    by (rule file_chunks_two) simp
  have g: "precreate_granted (accepting_server 0)"
    by (simp add: accepting_server_def)
  have r: "reply_to_next ?wb = json_reply precreate_payload"
    by (simp add: reply_to_next_def accepting_server_def)
  have oks: "\<forall>j<length (file_chunks two_chunk_file).
      answered_ok (server ?wb (length (sent ?wb) + 1 + j))"
    by (simp add: accepting_server_def answered_ok_def)
  have n: "requests_sent accepting_server 0 (length (file_chunks two_chunk_file)) = 4"
    using requests_sent_all [of accepting_server 0 "length (file_chunks two_chunk_file)"] g oks
    by (simp add: fc)
  note small = upload_path_by_size [OF s1 s2,
      of toy_digest "''/apps/demo/small.bin''" "''overwrite''"]
  note big = upload_path_by_size [OF b1 b2,
      of toy_digest "''/apps/demo/big.bin''" "''overwrite''"]
  have "sent (snd (snd (upload_file toy_digest example_client ''/tmp/small.bin''
        ''/apps/demo/small.bin'' ''overwrite'' ?ws))) =
       [direct_upload_request example_client small_file ''/apps/demo/small.bin'' ''overwrite'']"
    using small by simp
  moreover have "sent (snd (snd (upload_file toy_digest example_client ''/tmp/big.bin''
        ''/apps/demo/big.bin'' ''overwrite'' ?wb))) =
      chunked_requests toy_digest example_client two_chunk_file ''/apps/demo/big.bin''
        (JStr ''N1-MTAuMjI4'') ''overwrite''"
    using big oks n by (simp add: r length_chunked_requests fc)
  ultimately show ?thesis
    using s1 b1 g n by (simp add: chunked_requests_def fc)
qed

text \<open>
  C1 as stated fails: a client whose token is due for refresh uploads a file of 100 bytes
  with two network requests, the refresh request and then the direct upload.
\<close>

theorem upload_path_by_size_counterexample:
  "disk (world_with token_server [''/tmp/small.bin'' \<mapsto> small_file]) ''/tmp/small.bin'' =
     Some small_file
   \<and> length small_file = 100
   \<and> sent (world_with token_server [''/tmp/small.bin'' \<mapsto> small_file]) = []
   \<and> sent (snd (snd (upload_file toy_digest stale_client ''/tmp/small.bin''
        ''/apps/demo/small.bin'' ''overwrite''
        (world_with token_server [''/tmp/small.bin'' \<mapsto> small_file])))) =
       [refresh_request stale_client,
        direct_upload_request renewed_client small_file ''/apps/demo/small.bin'' ''overwrite'']"
proof -
  let ?w = "world_with token_server [''/tmp/small.bin'' \<mapsto> small_file]"
  have ct: "check_token stale_client ?w =
      (Inr (), renewed_client, after_request (refresh_request stale_client) ?w)"
    by (simp add: check_token_def stale_client_def refresh_access_token_def session_get_def
        send_eq response_json_def reply_to_next_def token_server_def token_payload_def
        and_then_Inr renewed_client_def refresh_request_def after_request_def)
  have d: "disk ?w ''/tmp/small.bin'' = Some small_file" by simp
  have l: "length small_file \<le> 4194304" by simp
  show ?thesis
    using upload_file_small [OF ct d l, of toy_digest "''/apps/demo/small.bin''" "''overwrite''"]
    by simp
qed

subsection \<open>Download\<close>






end
